theory Spec2Isabelle
  imports Main
begin

section \<open>Paths, documents and errors\<close>

text \<open>
  \<^verbatim>\<open>storage.Path\<close> is a slice of string segments. Documents held by the store and
  returned by the evaluator are Go \<^verbatim>\<open>interface{}\<close> values decoded from JSON with
  \<^verbatim>\<open>UseNumber\<close>: a number is a \<^verbatim>\<open>json.Number\<close> (its literal text), an object is a
  \<^verbatim>\<open>map[string]interface{}\<close>. A Go map has no fixed iteration order; an object is kept
  here as an association list, and the order of the list is the order in which one
  particular \<^verbatim>\<open>range\<close> loop happens to visit the entries.
\<close>

type_synonym path = "string list"

datatype json =
    JNull
  | JBool bool
  | JNumber string
  | JString string
  | JArray "json list"
  | JObject "(string \<times> json) list"

text \<open>
  The error values of \<^verbatim>\<open>server.go\<close>. \<^verbatim>\<open>WriteConflictError\<close> and \<^verbatim>\<open>badRequestError\<close>
  are declared there. \<^verbatim>\<open>*storage.Error\<close> is the error type of the storage package; of its
  codes only not-found and invalid-patch are told apart by the server. \<^verbatim>\<open>AstErrors\<close> is
  \<^verbatim>\<open>ast.Errors\<close>. \<^verbatim>\<open>OtherError\<close> is any other error without a cause (\<^verbatim>\<open>fmt.Errorf\<close>,
  I/O errors). \<^verbatim>\<open>Wrapped\<close> is an error of \<^verbatim>\<open>github.com/pkg/errors\<close> that carries a message
  and a cause (\<^verbatim>\<open>errors.Wrap\<close>, \<^verbatim>\<open>errors.Wrapf\<close>, \<^verbatim>\<open>errors.WithStack\<close>); none of the error
  types the server recognizes has a \<^verbatim>\<open>Cause\<close> method.
\<close>

datatype storage_code = NotFoundErr | InvalidPatchErr | OtherStorageErr nat

datatype error =
    StorageError storage_code string
  | WriteConflictError path
  | badRequestError string
  | AstErrors "string list"
  | OtherError string
  | Wrapped string error

text \<open>\<^verbatim>\<open>IsWriteConflict\<close> and \<^verbatim>\<open>isBadRequest\<close>: a type assertion on the error itself.\<close>

fun IsWriteConflict :: "error \<Rightarrow> bool" where
  "IsWriteConflict (WriteConflictError p) = True"
| "IsWriteConflict _ = False"

fun isBadRequest :: "error \<Rightarrow> bool" where
  "isBadRequest (badRequestError s) = True"
| "isBadRequest _ = False"

text \<open>
  Modelled from the spec: \<^verbatim>\<open>storage.IsNotFound\<close> and \<^verbatim>\<open>storage.IsInvalidPatch\<close> are not
  under \<^verbatim>\<open>src/\<close>; they recognize the storage error kinds NotFound and InvalidPatch.
\<close>

fun IsNotFound :: "error \<Rightarrow> bool" where
  "IsNotFound (StorageError c m) = (c = NotFoundErr)"
| "IsNotFound _ = False"

fun IsInvalidPatch :: "error \<Rightarrow> bool" where
  "IsInvalidPatch (StorageError c m) = (c = InvalidPatchErr)"
| "IsInvalidPatch _ = False"

text \<open>
  \<^verbatim>\<open>errors.Cause\<close> of \<^verbatim>\<open>github.com/pkg/errors\<close>: it follows \<^verbatim>\<open>Cause()\<close> for as long as the
  error has that method and returns the first error that has none.
\<close>

fun Cause :: "error \<Rightarrow> error" where
  "Cause (Wrapped m e) = Cause e"
| "Cause e = e"

text \<open>The errors an error stands for: itself, then what it wraps, down to the root.\<close>

fun cause_chain :: "error \<Rightarrow> error list" where
  "cause_chain (Wrapped m e) = Wrapped m e # cause_chain e"
| "cause_chain e = [e]"

section \<open>Responses\<close>

text \<open>
  A function that can hit a Go run-time panic (an index or slice bound out of range, a
  failed type assertion, a comparison of two interface values of one uncomparable
  dynamic type) returns an \<open>outcome\<close>: the panic is not an error value, and no caller
  among these functions recovers from it.
\<close>

datatype 'a outcome = Panicked | Returned 'a

text \<open>
  What a handler writes to the \<^verbatim>\<open>http.ResponseWriter\<close>. \<^verbatim>\<open>handleError(w, code, err)\<close> is
  \<^verbatim>\<open>handleErrorf(w, code, err.Error())\<close>: the body is an \<^verbatim>\<open>apiErrorV1\<close> with that code and
  the error's text; the text of an error value is kept as the error itself.
  \<^verbatim>\<open>handleErrorf\<close> hands its text to \<^verbatim>\<open>fmt.Sprintf\<close> as the format, which changes a
  text that has a percent sign in it; the responses keep the text as it was given.
\<close>

datatype message = ErrorText error | Text string

datatype 'b response =
    ErrorV1 nat message
  | AstErrorV1 nat string "string list"
  | Bytes nat "string option"
  | JSON nat 'b

fun status :: "'b response \<Rightarrow> nat" where
  "status (ErrorV1 c m) = c"
| "status (AstErrorV1 c m es) = c"
| "status (Bytes c b) = c"
| "status (JSON c v) = c"

definition handleError :: "nat \<Rightarrow> error \<Rightarrow> 'b response" where
  "handleError code err = ErrorV1 code (ErrorText err)"

definition handleErrorf :: "nat \<Rightarrow> string \<Rightarrow> 'b response" where
  "handleErrorf code text = ErrorV1 code (Text text)"

definition handleErrorAST :: "nat \<Rightarrow> string \<Rightarrow> string list \<Rightarrow> 'b response" where
  "handleErrorAST code msg errs = AstErrorV1 code msg errs"

definition handleResponse :: "nat \<Rightarrow> string option \<Rightarrow> 'b response" where
  "handleResponse code bs = Bytes code (if code = 204 then None else bs)"

text \<open>
  Go compares two interface values by their dynamic types first: values of different
  types are unequal, and the comparison of two values of one dynamic type that is not
  comparable is a run-time panic. Of the error types here, \<^verbatim>\<open>ast.Errors\<close> (a slice) and
  \<^verbatim>\<open>WriteConflictError\<close> (a struct with a slice field) are not comparable; the others
  are strings or pointers.
\<close>

fun compare_panics :: "error \<Rightarrow> error \<Rightarrow> bool" where
  "compare_panics (AstErrors es) (AstErrors es') = True"
| "compare_panics (WriteConflictError p) (WriteConflictError p') = True"
| "compare_panics _ _ = False"

text \<open>
  \<^verbatim>\<open>handleErrorAuto\<close>: the loop \<^verbatim>\<open>for curr := err; curr != prev; { ...; prev = curr;
  curr = errors.Cause(prev) }\<close>. \<^verbatim>\<open>prev\<close> starts as the nil error, which is unequal to every
  error. The response always carries the error the handler was given, not the cause
  the loop stopped at. The result is the response written, or the panic of the loop
  test.
\<close>

function handleErrorAuto_loop :: "error \<Rightarrow> error option \<Rightarrow> error \<Rightarrow> 'b response outcome" where
  "handleErrorAuto_loop err prev cur =
     (if (case prev of None \<Rightarrow> False | Some p \<Rightarrow> compare_panics cur p) then Panicked
      else if Some cur = prev then Returned (handleError 500 err)
      else if IsNotFound cur then Returned (handleError 404 err)
      else if IsWriteConflict cur then Returned (handleError 404 err)
      else if isBadRequest cur then Returned (handleError 400 err)
      else if IsInvalidPatch cur then Returned (handleError 400 err)
      else handleErrorAuto_loop err (Some cur) (Cause cur))"
  by pat_completeness auto

lemma Cause_idem: "Cause (Cause e) = Cause e"
  by (induction e) simp_all

termination handleErrorAuto_loop
  by (relation "measure (\<lambda>(err, prev, cur).
        if prev = Some cur then 0 else if Cause cur = cur then 1 else 2)")
     (auto simp: Cause_idem)

declare handleErrorAuto_loop.simps [simp del]

definition handleErrorAuto :: "error \<Rightarrow> 'b response outcome" where
  "handleErrorAuto err = handleErrorAuto_loop err None err"

text \<open>The kinds the responder recognizes, and the status each one maps to.\<close>

definition recognized :: "error \<Rightarrow> bool" where
  "recognized e = (IsNotFound e \<or> IsWriteConflict e \<or> isBadRequest e \<or> IsInvalidPatch e)"

definition kind_status :: "error \<Rightarrow> nat" where
  "kind_status e =
     (if IsNotFound e then 404 else if IsWriteConflict e then 404
      else if isBadRequest e then 400 else if IsInvalidPatch e then 400 else 500)"

section \<open>The collaborators of the server\<close>

datatype PatchOp = AddOp | RemoveOp | ReplaceOp

text \<open>\<^verbatim>\<open>patchV1{Op, Path, Value}\<close> and \<^verbatim>\<open>patchImpl{path, op, value}\<close>.\<close>

datatype patchV1 = patchV1 string string json

datatype patchImpl = patchImpl path PatchOp json

text \<open>
  References handed to the compiler and the evaluator: \<^verbatim>\<open>ast.DefaultRootDocument\<close> is the
  variable \<^verbatim>\<open>data\<close>; \<^verbatim>\<open>ast.StringTerm\<close> and \<^verbatim>\<open>ast.IntNumberTerm\<close> build the other
  elements.
\<close>

datatype ref_elem = VarTerm string | StringTerm string | IntNumberTerm int

type_synonym ref = "ref_elem list"

definition DefaultRootDocument :: ref_elem where
  "DefaultRootDocument = VarTerm ''data''"

text \<open>
  The storage package is not under \<^verbatim>\<open>src/\<close>; the server reaches it through the calls
  below, which are parameters of the model. \<open>'s\<close> is the state of the store as one
  transaction sees it, \<open>'m\<close> a parsed module. \<^verbatim>\<open>NewTransaction\<close> gives the error it
  failed with, if any. \<^verbatim>\<open>Write\<close>, \<^verbatim>\<open>InsertPolicy\<close> and \<^verbatim>\<open>DeletePolicy\<close> give their error,
  if any, and the state they leave. \<^verbatim>\<open>ParsePath\<close> gives no path where the Go function
  returns \<^verbatim>\<open>ok = false\<close>. \<^verbatim>\<open>PathRef p\<close> is \<^verbatim>\<open>p.Ref(ast.DefaultRootDocument)\<close>.
\<close>

record ('s, 'm) Storage =
  NewTransaction :: "'s \<Rightarrow> error option"
  Read :: "'s \<Rightarrow> path \<Rightarrow> error + json"
  Write :: "'s \<Rightarrow> PatchOp \<Rightarrow> path \<Rightarrow> json \<Rightarrow> error option \<times> 's"
  ParsePath :: "string \<Rightarrow> path option"
  PathRef :: "path \<Rightarrow> ref"
  ListPolicies :: "'s \<Rightarrow> (string \<rightharpoonup> 'm)"
  GetPolicy :: "'s \<Rightarrow> string \<Rightarrow> error + ('m \<times> string)"
  InsertPolicy :: "'s \<Rightarrow> string \<Rightarrow> 'm \<Rightarrow> string \<Rightarrow> bool \<Rightarrow> error option \<times> 's"
  DeletePolicy :: "'s \<Rightarrow> string \<Rightarrow> error option \<times> 's"

text \<open>
  The ast package is not under \<^verbatim>\<open>src/\<close> either. \<open>'c\<close> is a compiler after
  \<^verbatim>\<open>ast.NewCompiler()\<close> and \<^verbatim>\<open>c.Compile(mods)\<close>; \<^verbatim>\<open>Failed\<close>, \<^verbatim>\<open>Errors\<close>, \<^verbatim>\<open>Modules\<close> and
  \<^verbatim>\<open>GetRulesForVirtualDocument\<close> read it (\<open>None\<close> is the nil slice of rules, \<open>'r\<close> a
  rule). \<^verbatim>\<open>ParseModule\<close> gives an error, or a module, or neither (the nil module of an
  empty source).
\<close>

record ('m, 'c, 'r) Ast =
  ParseModule :: "string \<Rightarrow> string \<Rightarrow> error + 'm option"
  Compile :: "(string \<rightharpoonup> 'm) \<Rightarrow> 'c"
  Failed :: "'c \<Rightarrow> bool"
  Errors :: "'c \<Rightarrow> string list"
  Modules :: "'c \<Rightarrow> (string \<rightharpoonup> 'm)"
  GetRulesForVirtualDocument :: "'c \<Rightarrow> ref \<Rightarrow> 'r list option"

text \<open>
  The fields of \<^verbatim>\<open>Server\<close> that the handlers read and write. The mutex only orders
  \<^verbatim>\<open>Compiler()\<close> and \<^verbatim>\<open>setCompiler\<close>; the model runs one handler at a time.
\<close>

record ('s, 'c) Server =
  persist :: bool
  compiler :: 'c
  store :: 's

definition setCompiler :: "('s, 'c) Server \<Rightarrow> 'c \<Rightarrow> ('s, 'c) Server" where
  "setCompiler srv c = srv\<lparr>compiler := c\<rparr>"

section \<open>Writes to the data store\<close>

text \<open>\<^verbatim>\<open>strings.Trim(s, "/")\<close>: all leading and all trailing slashes go.\<close>

definition Trim :: "string \<Rightarrow> string" where
  "Trim s = rev (dropWhile (\<lambda>c. c = CHR ''/'') (rev (dropWhile (\<lambda>c. c = CHR ''/'') s)))"

definition badPatchOperationError :: "string \<Rightarrow> error" where
  "badPatchOperationError op = badRequestError (''bad patch operation: '' @ op)"

definition badPatchPathError :: "string \<Rightarrow> error" where
  "badPatchPathError p = badRequestError (''bad patch path: '' @ p)"

text \<open>
  \<^verbatim>\<open>writeConflict\<close>. The error carries the path after the trailing \<^verbatim>\<open>-\<close> has been cut,
  since the Go code assigns to \<^verbatim>\<open>path\<close> before it builds the error.
\<close>

definition writeConflict ::
  "('s, 'm) Storage \<Rightarrow> ('m, 'c, 'r) Ast \<Rightarrow> ('s, 'c) Server \<Rightarrow> PatchOp \<Rightarrow> path \<Rightarrow> error option" where
  "writeConflict S A srv op p =
     (let p' = (if op = AddOp \<and> length p > 0 \<and> last p = ''-'' then butlast p else p);
          r = PathRef S p'
      in if GetRulesForVirtualDocument A (compiler srv) r \<noteq> None
         then Some (WriteConflictError p') else None)"

text \<open>The \<^verbatim>\<open>switch op.Op\<close> of \<^verbatim>\<open>prepareV1PatchSlice\<close>; \<open>None\<close> is its default case.\<close>

definition patch_operation :: "string \<Rightarrow> PatchOp option" where
  "patch_operation op =
     (if op = ''add'' then Some AddOp
      else if op = ''remove'' then Some RemoveOp
      else if op = ''replace'' then Some ReplaceOp
      else None)"

text \<open>
  One round of the loop of \<^verbatim>\<open>prepareV1PatchSlice\<close>, up to the \<^verbatim>\<open>patchImpl\<close> it appends.
\<close>

definition prepare_op ::
  "('s, 'm) Storage \<Rightarrow> ('m, 'c, 'r) Ast \<Rightarrow> ('s, 'c) Server \<Rightarrow> string \<Rightarrow> patchV1
     \<Rightarrow> error + patchImpl" where
  "prepare_op S A srv root patch =
     (case patch of
        patchV1 op opPath v \<Rightarrow>
          (case patch_operation op of
             None \<Rightarrow> Inl (badPatchOperationError op)
           | Some implOp \<Rightarrow>
               (let p = Trim opPath;
                    p = (if length p > 0 then root @ ''/'' @ p else root)
                in case ParsePath S p of
                     None \<Rightarrow> Inl (badPatchPathError opPath)
                   | Some implPath \<Rightarrow>
                       (case writeConflict S A srv implOp implPath of
                          Some err \<Rightarrow> Inl err
                        | None \<Rightarrow> Inr (patchImpl implPath implOp v)))))"

text \<open>
  \<^verbatim>\<open>prepareV1PatchSlice\<close>: the loop over \<^verbatim>\<open>ops\<close>, with \<^verbatim>\<open>result\<close> as accumulator. The first
  op that fails ends the loop with its error and no result.
\<close>

fun prepareV1PatchSlice_loop ::
  "('s, 'm) Storage \<Rightarrow> ('m, 'c, 'r) Ast \<Rightarrow> ('s, 'c) Server \<Rightarrow> string \<Rightarrow> patchV1 list
     \<Rightarrow> patchImpl list \<Rightarrow> error + patchImpl list" where
  "prepareV1PatchSlice_loop S A srv root [] result = Inr result"
| "prepareV1PatchSlice_loop S A srv root (patch # ops) result =
     (case prepare_op S A srv root patch of
        Inl err \<Rightarrow> Inl err
      | Inr impl \<Rightarrow> prepareV1PatchSlice_loop S A srv root ops (result @ [impl]))"

definition prepareV1PatchSlice ::
  "('s, 'm) Storage \<Rightarrow> ('m, 'c, 'r) Ast \<Rightarrow> ('s, 'c) Server \<Rightarrow> string \<Rightarrow> patchV1 list
     \<Rightarrow> error + patchImpl list" where
  "prepareV1PatchSlice S A srv root ops =
     prepareV1PatchSlice_loop S A srv (''/'' @ Trim root) ops []"

text \<open>
  The write loop of \<^verbatim>\<open>v1DataPatch\<close>: the first write that fails ends the request; what
  earlier writes did stays in the state.
\<close>

fun write_patches ::
  "('s, 'm) Storage \<Rightarrow> ('s, 'c) Server \<Rightarrow> patchImpl list
     \<Rightarrow> 'b response outcome \<times> ('s, 'c) Server" where
  "write_patches S srv [] = (Returned (handleResponse 204 None), srv)"
| "write_patches S srv (patchImpl p op v # patches) =
     (case Write S (store srv) op p v of
        (Some err, st) \<Rightarrow> (handleErrorAuto err, srv\<lparr>store := st\<rparr>)
      | (None, st) \<Rightarrow> write_patches S (srv\<lparr>store := st\<rparr>) patches)"

text \<open>
  \<^verbatim>\<open>v1DataPatch\<close>. \<open>pathVar\<close> is \<^verbatim>\<open>vars["path"]\<close>; \<open>body\<close> is what decoding the request
  body into \<^verbatim>\<open>[]patchV1\<close> gave. A handler gives what it wrote as response, or that it
  panicked, and the server as it leaves it.
\<close>

definition v1DataPatch ::
  "('s, 'm) Storage \<Rightarrow> ('m, 'c, 'r) Ast \<Rightarrow> ('s, 'c) Server \<Rightarrow> string \<Rightarrow> error + patchV1 list
     \<Rightarrow> 'b response outcome \<times> ('s, 'c) Server" where
  "v1DataPatch S A srv pathVar body =
     (case body of
        Inl err \<Rightarrow> (Returned (handleError 400 err), srv)
      | Inr ops \<Rightarrow>
          (case NewTransaction S (store srv) of
             Some err \<Rightarrow> (handleErrorAuto err, srv)
           | None \<Rightarrow>
               (case prepareV1PatchSlice S A srv pathVar ops of
                  Inl err \<Rightarrow> (handleErrorAuto err, srv)
                | Inr patches \<Rightarrow> write_patches S srv patches)))"

text \<open>
  \<^verbatim>\<open>makeDir\<close>. The read comes before the recursive call and the writes after it, so every
  read of one request sees the store as it was. \<^verbatim>\<open>path[:len(path)-1]\<close> on the empty
  path is a slice bound out of range; it is reached before any write. The result is
  the error, if any, and the server with what was written.
\<close>

function makeDir ::
  "('s, 'm) Storage \<Rightarrow> ('m, 'c, 'r) Ast \<Rightarrow> ('s, 'c) Server \<Rightarrow> path
     \<Rightarrow> (error option \<times> ('s, 'c) Server) outcome" where
  "makeDir S A srv p =
     (case Read S (store srv) p of
        Inr node \<Rightarrow>
          (case node of
             JObject kvs \<Rightarrow> Returned (None, srv)
           | _ \<Rightarrow> Returned (Some (WriteConflictError p), srv))
      | Inl err \<Rightarrow>
          if \<not> IsNotFound err then Returned (Some err, srv)
          else if p = [] then Panicked
          else
            (case makeDir S A srv (butlast p) of
               Panicked \<Rightarrow> Panicked
             | Returned (Some err', srv') \<Rightarrow> Returned (Some err', srv')
             | Returned (None, srv') \<Rightarrow>
                 (case writeConflict S A srv' AddOp p of
                    Some err' \<Rightarrow> Returned (Some err', srv')
                  | None \<Rightarrow>
                      (case Write S (store srv') AddOp p (JObject []) of
                         (werr, st) \<Rightarrow> Returned (werr, srv'\<lparr>store := st\<rparr>)))))"
  by pat_completeness auto
termination
  by (relation "measure (\<lambda>(S, A, srv, p). length p)") auto

declare makeDir.simps [simp del]

text \<open>
  \<^verbatim>\<open>v1DataPut\<close>. \<open>body\<close> is what decoding the request body gave, \<open>ifNoneMatch\<close> the
  value of that header.
\<close>

definition put_write ::
  "('s, 'm) Storage \<Rightarrow> ('s, 'c) Server \<Rightarrow> path \<Rightarrow> json
     \<Rightarrow> 'b response outcome \<times> ('s, 'c) Server" where
  "put_write S srv p v =
     (case Write S (store srv) AddOp p v of
        (Some err, st) \<Rightarrow> (handleErrorAuto err, srv\<lparr>store := st\<rparr>)
      | (None, st) \<Rightarrow> (Returned (handleResponse 204 None), srv\<lparr>store := st\<rparr>))"

definition v1DataPut ::
  "('s, 'm) Storage \<Rightarrow> ('m, 'c, 'r) Ast \<Rightarrow> ('s, 'c) Server \<Rightarrow> string \<Rightarrow> error + json \<Rightarrow> string
     \<Rightarrow> 'b response outcome \<times> ('s, 'c) Server" where
  "v1DataPut S A srv pathVar body ifNoneMatch =
     (case body of
        Inl err \<Rightarrow> (Returned (handleError 400 err), srv)
      | Inr v \<Rightarrow>
          (case NewTransaction S (store srv) of
             Some err \<Rightarrow> (handleErrorAuto err, srv)
           | None \<Rightarrow>
               (case ParsePath S (''/'' @ Trim pathVar) of
                  None \<Rightarrow> (Returned (handleErrorf 400 (''bad path format '' @ pathVar)), srv)
                | Some p \<Rightarrow>
                    (case Read S (store srv) p of
                       Inl err \<Rightarrow>
                         if \<not> IsNotFound err then (handleErrorAuto err, srv)
                         else if p = [] then (Panicked, srv)
                         else
                           (case makeDir S A srv (butlast p) of
                              Panicked \<Rightarrow> (Panicked, srv)
                            | Returned (Some err', srv') \<Rightarrow> (handleErrorAuto err', srv')
                            | Returned (None, srv') \<Rightarrow> put_write S srv' p v)
                     | Inr node \<Rightarrow>
                         if ifNoneMatch = ''*'' then (Returned (handleResponse 304 None), srv)
                         else put_write S srv p v))))"

text \<open>
  What \<^verbatim>\<open>makeDir\<close> is meant to do, written as a loop over the missing ancestors,
  shallowest first: each one passes the write-conflict check and is then written as an
  empty object; the first check or write that fails ends the loop with its error.
\<close>

fun materialize ::
  "('s, 'm) Storage \<Rightarrow> ('m, 'c, 'r) Ast \<Rightarrow> ('s, 'c) Server \<Rightarrow> path list
     \<Rightarrow> error option \<times> ('s, 'c) Server" where
  "materialize S A srv [] = (None, srv)"
| "materialize S A srv (p # ps) =
     (case writeConflict S A srv AddOp p of
        Some err \<Rightarrow> (Some err, srv)
      | None \<Rightarrow>
          (case Write S (store srv) AddOp p (JObject []) of
             (Some err, st) \<Rightarrow> (Some err, srv\<lparr>store := st\<rparr>)
           | (None, st) \<Rightarrow> materialize S A (srv\<lparr>store := st\<rparr>) ps))"

text \<open>A read that yields the store's NotFound error.\<close>

definition missing :: "('s, 'm) Storage \<Rightarrow> 's \<Rightarrow> path \<Rightarrow> bool" where
  "missing S st p = (case Read S st p of Inl err \<Rightarrow> IsNotFound err | Inr node \<Rightarrow> False)"

section \<open>Policy modules and the compiler\<close>

definition compileModErrMsg :: string where
  "compileModErrMsg = ''error(s) occurred while compiling module(s), see Errors''"

text \<open>\<^verbatim>\<open>policyV1{ID, Module}\<close>; the module is \<^verbatim>\<open>c.Modules[id]\<close>, nil when the map has none.\<close>

datatype 'm policyV1 = policyV1 string "'m option"

text \<open>
  \<^verbatim>\<open>handleResponseJSON\<close>, for the values the handlers pass, which \<^verbatim>\<open>json.Marshal\<close> does
  not refuse; \<^verbatim>\<open>pretty\<close> only sets the indentation.
\<close>

definition handleResponseJSON :: "nat \<Rightarrow> 'b \<Rightarrow> 'b response" where
  "handleResponseJSON code v = JSON code v"

text \<open>
  \<^verbatim>\<open>New\<close>: the compiler of a fresh server is the compilation of the modules found in
  the store; a set that does not compile gives no server.
\<close>

definition New ::
  "('s, 'm) Storage \<Rightarrow> ('m, 'c, 'r) Ast \<Rightarrow> 's \<Rightarrow> bool \<Rightarrow> error + ('s, 'c) Server" where
  "New S A st pers =
     (case NewTransaction S st of
        Some err \<Rightarrow> Inl err
      | None \<Rightarrow>
          (let modules = ListPolicies S st;
               c = Compile A modules
           in if Failed A c then Inl (AstErrors (Errors A c))
              else Inr \<lparr>persist = pers, compiler = c, store = st\<rparr>))"

text \<open>
  \<^verbatim>\<open>v1PoliciesPut\<close>. \<open>body\<close> is what \<^verbatim>\<open>ioutil.ReadAll(r.Body)\<close> gave. \<^verbatim>\<open>ListPolicies\<close> hands
  out a map of the handler's own, so \<^verbatim>\<open>mods[id] = parsedMod\<close> changes nothing in the
  store.
\<close>

definition v1PoliciesPut ::
  "('s, 'm) Storage \<Rightarrow> ('m, 'c, 'r) Ast \<Rightarrow> ('s, 'c) Server \<Rightarrow> string \<Rightarrow> error + string
     \<Rightarrow> 'm policyV1 response outcome \<times> ('s, 'c) Server" where
  "v1PoliciesPut S A srv ident body =
     (case body of
        Inl err \<Rightarrow> (Returned (handleError 500 err), srv)
      | Inr buf \<Rightarrow>
          (case ParseModule A ident buf of
             Inl err \<Rightarrow>
               (case err of
                  AstErrors errs \<Rightarrow> (Returned (handleErrorAST 400 compileModErrMsg errs), srv)
                | _ \<Rightarrow> (Returned (handleError 400 err), srv))
           | Inr None \<Rightarrow> (Returned (handleErrorf 400 ''refusing to add empty module''), srv)
           | Inr (Some parsedMod) \<Rightarrow>
               (case NewTransaction S (store srv) of
                  Some err \<Rightarrow> (handleErrorAuto err, srv)
                | None \<Rightarrow>
                    (let mods = (ListPolicies S (store srv))(ident \<mapsto> parsedMod);
                         c = Compile A mods
                     in if Failed A c
                        then (Returned (handleErrorAST 400 compileModErrMsg (Errors A c)), srv)
                        else
                          (case InsertPolicy S (store srv) ident parsedMod buf (persist srv) of
                             (Some err, st) \<Rightarrow> (handleErrorAuto err, srv\<lparr>store := st\<rparr>)
                           | (None, st) \<Rightarrow>
                               (Returned
                                  (handleResponseJSON 200 (policyV1 ident (Modules A c ident))),
                                setCompiler (srv\<lparr>store := st\<rparr>) c))))))"

text \<open>\<^verbatim>\<open>v1PoliciesDelete\<close>.\<close>

definition v1PoliciesDelete ::
  "('s, 'm) Storage \<Rightarrow> ('m, 'c, 'r) Ast \<Rightarrow> ('s, 'c) Server \<Rightarrow> string
     \<Rightarrow> 'm policyV1 response outcome \<times> ('s, 'c) Server" where
  "v1PoliciesDelete S A srv ident =
     (case NewTransaction S (store srv) of
        Some err \<Rightarrow> (handleErrorAuto err, srv)
      | None \<Rightarrow>
          (case GetPolicy S (store srv) ident of
             Inl err \<Rightarrow> (handleErrorAuto err, srv)
           | Inr found \<Rightarrow>
               (let mods = (ListPolicies S (store srv))(ident := None);
                    c = Compile A mods
                in if Failed A c
                   then (Returned (handleErrorAST 400 compileModErrMsg (Errors A c)), srv)
                   else
                     (case DeletePolicy S (store srv) ident of
                        (Some err, st) \<Rightarrow> (handleErrorAuto err, srv\<lparr>store := st\<rparr>)
                      | (None, st) \<Rightarrow>
                          (Returned (handleResponse 204 None),
                           setCompiler (srv\<lparr>store := st\<rparr>) c)))))"

text \<open>
  A policy request, and a server taking a sequence of them one after the other; it goes
  on after a handler that panicked, as \<^verbatim>\<open>net/http\<close> recovers the panic of a handler.
\<close>

datatype policy_request =
    PoliciesPut string "error + string"
  | PoliciesDelete string

fun policy_handler ::
  "('s, 'm) Storage \<Rightarrow> ('m, 'c, 'r) Ast \<Rightarrow> ('s, 'c) Server \<Rightarrow> policy_request
     \<Rightarrow> 'm policyV1 response outcome \<times> ('s, 'c) Server" where
  "policy_handler S A srv (PoliciesPut ident body) = v1PoliciesPut S A srv ident body"
| "policy_handler S A srv (PoliciesDelete ident) = v1PoliciesDelete S A srv ident"

fun serve_policies ::
  "('s, 'm) Storage \<Rightarrow> ('m, 'c, 'r) Ast \<Rightarrow> ('s, 'c) Server \<Rightarrow> policy_request list
     \<Rightarrow> ('s, 'c) Server" where
  "serve_policies S A srv [] = srv"
| "serve_policies S A srv (req # reqs) = serve_policies S A (snd (policy_handler S A srv req)) reqs"

text \<open>
  The module set a request asks for, given the stored one: what the handler compiles
  once the request has got as far as the compiler.
\<close>

fun requested_modules ::
  "('m, 'c, 'r) Ast \<Rightarrow> (string \<rightharpoonup> 'm) \<Rightarrow> policy_request \<Rightarrow> (string \<rightharpoonup> 'm) option" where
  "requested_modules A stored (PoliciesPut ident body) =
     (case body of
        Inl err \<Rightarrow> None
      | Inr buf \<Rightarrow>
          (case ParseModule A ident buf of
             Inr (Some parsedMod) \<Rightarrow> Some (stored(ident \<mapsto> parsedMod))
           | _ \<Rightarrow> None))"
| "requested_modules A stored (PoliciesDelete ident) = Some (stored(ident := None))"

text \<open>
  The current compiler is the successful compilation of exactly the stored module set.
\<close>

definition snapshot_current ::
  "('s, 'm) Storage \<Rightarrow> ('m, 'c, 'r) Ast \<Rightarrow> ('s, 'c) Server \<Rightarrow> bool" where
  "snapshot_current S A srv =
     (compiler srv = Compile A (ListPolicies S (store srv)) \<and> \<not> Failed A (compiler srv))"

text \<open>
  What the handlers rely on in the store: a policy write that reports no error has
  changed the module set by exactly that module, and one that reports an error has left
  the module set as it was.
\<close>

definition policy_store_ok :: "('s, 'm) Storage \<Rightarrow> bool" where
  "policy_store_ok S =
     ((\<forall>st ident m raw pers.
         ListPolicies S (snd (InsertPolicy S st ident m raw pers)) =
           (if fst (InsertPolicy S st ident m raw pers) = None
            then (ListPolicies S st)(ident \<mapsto> m) else ListPolicies S st)) \<and>
      (\<forall>st ident.
         ListPolicies S (snd (DeletePolicy S st ident)) =
           (if fst (DeletePolicy S st ident) = None
            then (ListPolicies S st)(ident := None) else ListPolicies S st)))"

section \<open>Request parameters and data reads\<close>

text \<open>
  \<^verbatim>\<open>strconv.ParseInt(s, 10, 64)\<close>: an optional sign and decimal digits. The pair is the
  value and whether the error is nil: a syntax error comes with the value 0, a range
  error with the nearest bound of \<^verbatim>\<open>int64\<close>. \<^verbatim>\<open>strconv.Atoi\<close> is the same function where
  \<^verbatim>\<open>int\<close> has 64 bits.
\<close>

definition digit :: "char \<Rightarrow> int option" where
  "digit c = (let n = (of_char c :: int) in if 48 \<le> n \<and> n \<le> 57 then Some (n - 48) else None)"

fun digits :: "string \<Rightarrow> int \<Rightarrow> int option" where
  "digits [] acc = Some acc"
| "digits (c # cs) acc = (case digit c of None \<Rightarrow> None | Some d \<Rightarrow> digits cs (10 * acc + d))"

definition ParseInt :: "string \<Rightarrow> int \<times> bool" where
  "ParseInt s =
     (let (neg, ds) =
            (case s of
               [] \<Rightarrow> (False, [])
             | c # cs \<Rightarrow>
                 if c = CHR ''+'' then (False, cs)
                 else if c = CHR ''-'' then (True, cs)
                 else (False, s))
      in if ds = [] then (0, False)
         else
           (case digits ds 0 of
              None \<Rightarrow> (0, False)
            | Some n \<Rightarrow>
                if neg then (if n \<le> 2 ^ 63 then (- n, True) else (- (2 ^ 63), False))
                else (if n < 2 ^ 63 then (n, True) else (2 ^ 63 - 1, False))))"

definition Atoi :: "string \<Rightarrow> int \<times> bool" where
  "Atoi s = ParseInt s"

text \<open>\<^verbatim>\<open>strings.Split(s, sep)\<close> for a separator of one byte, and \<^verbatim>\<open>strings.SplitN(s, ":", 2)\<close> where it has two parts.\<close>

fun Split :: "string \<Rightarrow> char \<Rightarrow> string list" where
  "Split [] sep = [[]]"
| "Split (c # cs) sep =
     (if c = sep then [] # Split cs sep
      else (case Split cs sep of [] \<Rightarrow> [[c]] | w # ws \<Rightarrow> (c # w) # ws))"

definition SplitN2 :: "string \<Rightarrow> (string \<times> string) option" where
  "SplitN2 s =
     (if CHR '':'' \<in> set s
      then Some (takeWhile (\<lambda>c. c \<noteq> CHR '':'') s, tl (dropWhile (\<lambda>c. c \<noteq> CHR '':'') s))
      else None)"

text \<open>\<^verbatim>\<open>stringPathToRef\<close> and \<^verbatim>\<open>stringPathToDataRef\<close>.\<close>

fun stringPathToRef_loop :: "string list \<Rightarrow> ref \<Rightarrow> ref" where
  "stringPathToRef_loop [] r = r"
| "stringPathToRef_loop (x # xs) r =
     (if x = [] then stringPathToRef_loop xs r
      else (case Atoi x of
              (i, False) \<Rightarrow> stringPathToRef_loop xs (r @ [StringTerm x])
            | (i, True) \<Rightarrow> stringPathToRef_loop xs (r @ [IntNumberTerm i])))"

definition stringPathToRef :: "string \<Rightarrow> ref" where
  "stringPathToRef s = (if length s = 0 then [] else stringPathToRef_loop (Split s (CHR ''/'')) [])"

definition stringPathToDataRef :: "string \<Rightarrow> ref" where
  "stringPathToDataRef s = [DefaultRootDocument] @ stringPathToRef s"

text \<open>
  The term side of the ast package and \<^verbatim>\<open>topdown.MakeRequest\<close> are parameters:
  \<open>'t\<close> is a parsed term, \<open>'v\<close> a request value. \<^verbatim>\<open>EmptyRef\<close> is
  \<^verbatim>\<open>ast.NewTerm(ast.EmptyRef())\<close>. \<^verbatim>\<open>WalkVars t\<close> lists the variables of \<open>t\<close> in the order
  \<^verbatim>\<open>ast.WalkVars\<close> visits them.
\<close>

record ('t, 'v) Terms =
  ParseTerm :: "string \<Rightarrow> error + 't"
  EmptyRef :: 't
  WalkVars :: "'t \<Rightarrow> string list"
  MakeRequest :: "('t \<times> 't) list \<Rightarrow> error + 'v"

definition errRequestPathFormat :: error where
  "errRequestPathFormat =
     OtherError ''request parameter format is [[<path>]:]<value> where <path> is either var or ref''"

text \<open>
  One round of the loop of \<^verbatim>\<open>parseRequest\<close>, up to the pair it stores: \<^verbatim>\<open>s[i][0]\<close> on an
  empty item is an index out of range. \<^verbatim>\<open>ast.RequestRootDocument.String()\<close> is
  \<^verbatim>\<open>request\<close>.
\<close>

definition parseRequest_item :: "('t, 'v) Terms \<Rightarrow> string \<Rightarrow> (error + 't \<times> 't) outcome" where
  "parseRequest_item T item =
     (case item of
        [] \<Rightarrow> Panicked
      | c # cs \<Rightarrow>
          if c = CHR '':'' then
            (case ParseTerm T cs of
               Inl err \<Rightarrow> Returned (Inl err)
             | Inr v \<Rightarrow> Returned (Inr (EmptyRef T, v)))
          else
            (case ParseTerm T item of
               Inr v \<Rightarrow> Returned (Inr (EmptyRef T, v))
             | Inl err0 \<Rightarrow>
                 (case SplitN2 item of
                    None \<Rightarrow> Returned (Inl errRequestPathFormat)
                  | Some (vs0, vs1) \<Rightarrow>
                      (case ParseTerm T (''request'' @ ''.'' @ vs0) of
                         Inl err1 \<Rightarrow> Returned (Inl errRequestPathFormat)
                       | Inr k \<Rightarrow>
                           (case ParseTerm T vs1 of
                              Inl err \<Rightarrow> Returned (Inl err)
                            | Inr v \<Rightarrow> Returned (Inr (k, v)))))))"

text \<open>
  The loop of \<^verbatim>\<open>parseRequest\<close>: the pairs so far and \<^verbatim>\<open>nonGround\<close>. The callback given to
  \<^verbatim>\<open>ast.WalkVars\<close> sets \<^verbatim>\<open>nonGround\<close> at the first variable that is not \<^verbatim>\<open>data\<close>.
\<close>

fun parseRequest_loop ::
  "('t, 'v) Terms \<Rightarrow> string list \<Rightarrow> ('t \<times> 't) list \<Rightarrow> bool
     \<Rightarrow> (error + ('t \<times> 't) list \<times> bool) outcome" where
  "parseRequest_loop T [] pairs nonGround = Returned (Inr (pairs, nonGround))"
| "parseRequest_loop T (item # items) pairs nonGround =
     (case parseRequest_item T item of
        Panicked \<Rightarrow> Panicked
      | Returned (Inl err) \<Rightarrow> Returned (Inl err)
      | Returned (Inr (k, v)) \<Rightarrow>
          parseRequest_loop T items (pairs @ [(k, v)])
            (if \<not> nonGround then list_ex (\<lambda>x. x \<noteq> ''data'') (WalkVars T v) else nonGround))"

definition parseRequest :: "('t, 'v) Terms \<Rightarrow> string list \<Rightarrow> (error + 'v \<times> bool) outcome" where
  "parseRequest T s =
     (case parseRequest_loop T s [] False of
        Panicked \<Rightarrow> Panicked
      | Returned (Inl err) \<Rightarrow> Returned (Inl err)
      | Returned (Inr (pairs, nonGround)) \<Rightarrow>
          (case MakeRequest T pairs of
             Inl err \<Rightarrow> Returned (Inl err)
           | Inr request \<Rightarrow> Returned (Inr (request, nonGround))))"

text \<open>
  The evaluator is a parameter. \<^verbatim>\<open>Query\<close> is \<^verbatim>\<open>topdown.Query\<close> on the parameters the
  handler builds (compiler, store, request value, path); it gives the result set, each
  result with its bindings, and the events a tracer has buffered. \<^verbatim>\<open>Truth\<close> is
  \<^verbatim>\<open>explain.Truth\<close>. \<^verbatim>\<open>parseInput\<close>, which \<^verbatim>\<open>grpc-server.go\<close> calls, is not under
  \<^verbatim>\<open>src/\<close>.
\<close>

type_synonym QueryResult = "json \<times> (string \<times> json) list"

record ('s, 'c, 'v, 'ev) Topdown =
  Query :: "'c \<Rightarrow> 's \<Rightarrow> 'v \<Rightarrow> ref \<Rightarrow> error + QueryResult list \<times> 'ev list"
  Truth :: "'c \<Rightarrow> 'ev list \<Rightarrow> error + 'ev list"
  parseInput :: "string list \<Rightarrow> error + 'v \<times> bool"

datatype explainModeV1 = explainOffV1 | explainFullV1 | explainTruthV1

fun getExplain :: "string list \<Rightarrow> explainModeV1" where
  "getExplain [] = explainOffV1"
| "getExplain (x # xs) =
     (if x = ''full'' then explainFullV1
      else if x = ''truth'' then explainTruthV1
      else getExplain xs)"

text \<open>What \<^verbatim>\<open>v1DataGet\<close> hands to \<^verbatim>\<open>handleResponseJSON\<close>.\<close>

datatype 'ev dataBody =
    ResultV1 json
  | queryResultSetV1 "QueryResult list"
  | traceV1 "'ev list"

text \<open>\<^verbatim>\<open>v1DataGet\<close>; \<open>explain\<close> and \<open>request\<close> are the values of those query parameters.\<close>

definition v1DataGet ::
  "('s, 'm) Storage \<Rightarrow> ('t, 'v) Terms \<Rightarrow> ('s, 'c, 'v, 'ev) Topdown \<Rightarrow> ('s, 'c) Server
     \<Rightarrow> string \<Rightarrow> string list \<Rightarrow> string list \<Rightarrow> 'ev dataBody response outcome" where
  "v1DataGet S T Q srv pathVar explain request =
     (let p = stringPathToDataRef pathVar;
          explainMode = getExplain explain
      in case parseRequest T request of
           Panicked \<Rightarrow> Panicked
         | Returned (Inl err) \<Rightarrow> Returned (handleError 400 err)
         | Returned (Inr (req, nonGround)) \<Rightarrow>
             if nonGround \<and> explainMode \<noteq> explainOffV1
             then Returned
                    (handleError 400
                       (OtherError ''explanations with non-ground request values not supported''))
             else
               (case NewTransaction S (store srv) of
                  Some err \<Rightarrow> handleErrorAuto err
                | None \<Rightarrow>
                    (case Query Q (compiler srv) (store srv) req p of
                       Inl err \<Rightarrow> handleErrorAuto err
                     | Inr (qrs, buf) \<Rightarrow>
                         (case qrs of
                            [] \<Rightarrow>
                              if explainMode = explainFullV1
                              then Returned (handleResponseJSON 404 (traceV1 buf))
                              else Returned (handleResponse 404 None)
                          | qr # rest \<Rightarrow>
                              if nonGround
                              then Returned (handleResponseJSON 200 (queryResultSetV1 qrs))
                              else
                                (case explainMode of
                                   explainOffV1 \<Rightarrow>
                                     Returned (handleResponseJSON 200 (ResultV1 (fst qr)))
                                 | explainFullV1 \<Rightarrow>
                                     Returned (handleResponseJSON 200 (traceV1 buf))
                                 | explainTruthV1 \<Rightarrow>
                                     (case Truth Q (compiler srv) buf of
                                        Inl err \<Rightarrow> handleErrorAuto err
                                      | Inr answer \<Rightarrow>
                                          Returned
                                            (handleResponseJSON 200 (traceV1 answer))))))))"

section \<open>The RPC verdict\<close>

datatype Effect = PERMIT | DENY

text \<open>\<^verbatim>\<open>ibp.Attribute{Id, Value}\<close>, \<^verbatim>\<open>ibp.Response{Effect, Obligation}\<close>,
  \<^verbatim>\<open>ValidateMatch{ActionData, ActionType, Priority}\<close>.\<close>

datatype Attribute = Attribute string string

datatype Response = Response Effect "Attribute list"

datatype ValidateMatch = ValidateMatch string string int

text \<open>
  The loop over \<^verbatim>\<open>matches\<close>. Each type assertion of the loop body is the one-result
  form, which panics when the value is not of that type, also when the key is missing
  (the nil interface). The error of \<^verbatim>\<open>Int64()\<close> is dropped and its value kept. The two
  string assertions run only when the priority is greater than the best so far.
\<close>

fun bestMatch_loop :: "json list \<Rightarrow> ValidateMatch \<Rightarrow> ValidateMatch outcome" where
  "bestMatch_loop [] bestMatch = Returned bestMatch"
| "bestMatch_loop (val # vals) (ValidateMatch actionData actionType priority) =
     (case val of
        JObject entry \<Rightarrow>
          (case map_of entry ''priority'' of
             Some (JNumber n) \<Rightarrow>
               (let p = fst (ParseInt n)
                in if p > priority then
                     (case map_of entry ''action_type'' of
                        Some (JString t) \<Rightarrow>
                          (case map_of entry ''action_data'' of
                             Some (JString d) \<Rightarrow> bestMatch_loop vals (ValidateMatch d t p)
                           | _ \<Rightarrow> Panicked)
                      | _ \<Rightarrow> Panicked)
                   else bestMatch_loop vals (ValidateMatch actionData actionType priority))
           | _ \<Rightarrow> Panicked)
      | _ \<Rightarrow> Panicked)"

text \<open>
  The priority, action type and action data of an entry on which no assertion of the
  loop fails, and the loop on such entries.
\<close>

fun entry_fields :: "json \<Rightarrow> (int \<times> string \<times> string) option" where
  "entry_fields (JObject entry) =
     (case map_of entry ''priority'' of
        Some (JNumber n) \<Rightarrow>
          (case map_of entry ''action_type'' of
             Some (JString t) \<Rightarrow>
               (case map_of entry ''action_data'' of
                  Some (JString d) \<Rightarrow> Some (fst (ParseInt n), t, d)
                | _ \<Rightarrow> None)
           | _ \<Rightarrow> None)
      | _ \<Rightarrow> None)"
| "entry_fields _ = None"

fun best_of :: "(int \<times> string \<times> string) list \<Rightarrow> ValidateMatch \<Rightarrow> ValidateMatch" where
  "best_of [] best = best"
| "best_of ((p, t, d) # es) (ValidateMatch d0 t0 p0) =
     best_of es (if p > p0 then ValidateMatch d t p else ValidateMatch d0 t0 p0)"

text \<open>
  The block of \<^verbatim>\<open>grpcDataGet\<close> under \<^verbatim>\<open>if len(qrs) > 0\<close>, on \<^verbatim>\<open>qrs[0].Result\<close>. The list
  of a \<open>JObject\<close> gives the order in which \<^verbatim>\<open>range matches\<close> visits the entries.
\<close>

definition validate_result :: "json \<Rightarrow> Response outcome" where
  "validate_result result =
     (case result of
        JObject kvs \<Rightarrow>
          (case map_of kvs ''match'' of
             Some (JObject matches) \<Rightarrow>
               (case bestMatch_loop (map snd matches) (ValidateMatch [] [] 0) of
                  Panicked \<Rightarrow> Panicked
                | Returned (ValidateMatch actionData actionType priority) \<Rightarrow>
                    if actionType = ''action_block'' then Returned (Response DENY [])
                    else if actionType = ''action_redirect''
                    then Returned (Response DENY ([] @ [Attribute ''redirect_to'' actionData]))
                    else Returned (Response PERMIT []))
           | _ \<Rightarrow> Panicked)
      | _ \<Rightarrow> Panicked)"

text \<open>\<^verbatim>\<open>grpcDataGet\<close>: the response and the error it returns, or a panic.\<close>

definition grpcDataGet ::
  "('s, 'm) Storage \<Rightarrow> ('s, 'c, 'v, 'ev) Topdown \<Rightarrow> ('s, 'c) Server \<Rightarrow> Attribute list
     \<Rightarrow> (Response \<times> error option) outcome" where
  "grpcDataGet S Q srv attributes =
     (let r = Response DENY [];
          inputs = map (\<lambda>a. case a of Attribute i v \<Rightarrow> i @ '':\"'' @ v @ ''\"'') attributes;
          cId = fold (\<lambda>a c. case a of Attribute i v \<Rightarrow> if i = ''customer_id'' then v else c)
                  attributes [];
          p = stringPathToDataRef (''opa/'' @ cId)
      in case parseInput Q inputs of
           Inl err \<Rightarrow> Returned (r, Some err)
         | Inr (input, nonGround) \<Rightarrow>
             (case NewTransaction S (store srv) of
                Some err \<Rightarrow> Returned (r, Some err)
              | None \<Rightarrow>
                  (case Query Q (compiler srv) (store srv) input p of
                     Inl err \<Rightarrow> Returned (r, Some err)
                   | Inr (qrs, buf) \<Rightarrow>
                       if nonGround then Returned (r, None)
                       else
                         (case qrs of
                            [] \<Rightarrow> Returned (r, None)
                          | qr # rest \<Rightarrow>
                              (case validate_result (fst qr) of
                                 Panicked \<Rightarrow> Panicked
                               | Returned r' \<Rightarrow> Returned (r', None))))))"

section \<open>The request builder\<close>

text \<open>
  Modelled from the spec: \<^verbatim>\<open>topdown.MakeRequest\<close> is not under \<^verbatim>\<open>src/\<close>; only its test
  \<^verbatim>\<open>TestMakeRequest\<close> is. The definitions of this section follow section 4.1 of the
  specification (the request builder) and its data model: a value is null, a boolean, a
  number, a string, an array, an object with ordered unique keys, a set, a variable or a
  reference.
\<close>

datatype val =
    VNull
  | VBoolean bool
  | VNumber int
  | VString string
  | VArray "val list"
  | VObject "(string \<times> val) list"
  | VSet "val list"
  | VVar string
  | VRef "val list"

datatype build_error = ConflictError string | PathError "val list"

fun key_of :: "val \<Rightarrow> string option" where
  "key_of (VString k) = Some k"
| "key_of _ = None"

text \<open>
  Modelled from the spec: a ref is empty, or the token \<^verbatim>\<open>request\<close> followed by string
  keys only; anything else is a PathError that identifies the ref. \<open>ref_keys\<close> is step 1
  of the algorithm: the keys after the leading token.
\<close>

definition ref_keys :: "val list \<Rightarrow> build_error + string list" where
  "ref_keys r =
     (case r of
        [] \<Rightarrow> Inr []
      | h # t \<Rightarrow>
          (case those (map key_of t) of
             None \<Rightarrow> Inl (PathError r)
           | Some keys \<Rightarrow> if h = VVar ''request'' then Inr keys else Inl (PathError r)))"

fun dotted :: "string list \<Rightarrow> string" where
  "dotted [] = []"
| "dotted [k] = k"
| "dotted (k # ks) = k @ ''.'' @ dotted ks"

text \<open>Modelled from the spec: the two literal formats of the conflict message.\<close>

definition conflict_value :: "string list \<Rightarrow> build_error" where
  "conflict_value keys =
     ConflictError (''conflicting request value request.'' @ dotted keys
                    @ '': check request parameters'')"

definition conflict_values :: build_error where
  "conflict_values = ConflictError ''conflicting request values: check request parameters''"

fun object_put :: "string \<Rightarrow> 'a \<Rightarrow> (string \<times> 'a) list \<Rightarrow> (string \<times> 'a) list" where
  "object_put k v [] = [(k, v)]"
| "object_put k v ((k', v') # kvs) =
     (if k' = k then (k, v) # kvs else (k', v') # object_put k v kvs)"

text \<open>
  Modelled from the spec: two values that meet in one slot. Two objects are merged key
  by key, recursively; any other overlap is a conflict (\<open>None\<close>).
\<close>

fun merge_objects :: "(string \<times> val) list \<Rightarrow> (string \<times> val) list \<Rightarrow> (string \<times> val) list option" where
  "merge_objects old [] = Some old"
| "merge_objects old ((k, v) # new) =
     (case map_of old k of
        None \<Rightarrow> merge_objects (old @ [(k, v)]) new
      | Some v' \<Rightarrow>
          (case v' of
             VObject old' \<Rightarrow>
               (case v of
                  VObject new' \<Rightarrow>
                    (case merge_objects old' new' of
                       None \<Rightarrow> None
                     | Some m \<Rightarrow> merge_objects (object_put k (VObject m) old) new)
                | _ \<Rightarrow> None)
           | _ \<Rightarrow> None))"

fun merge_values :: "val \<Rightarrow> val \<Rightarrow> val option" where
  "merge_values (VObject old) (VObject new) = map_option VObject (merge_objects old new)"
| "merge_values _ _ = None"

text \<open>
  Modelled from the spec: steps 3 and 4, on the slot the keys lead to. A missing node
  becomes an empty object; an object is descended into; a non-object on the way is a
  conflict; at the terminal step the value is placed, or merged with what is there.
\<close>

fun place :: "string list \<Rightarrow> val \<Rightarrow> val option \<Rightarrow> val option" where
  "place [] v None = Some v"
| "place [] v (Some old) = merge_values old v"
| "place (k # ks) v None = map_option (\<lambda>c. VObject [(k, c)]) (place ks v None)"
| "place (k # ks) v (Some (VObject kvs)) =
     map_option (\<lambda>c. VObject (object_put k c kvs)) (place ks v (map_of kvs k))"
| "place (k # ks) v (Some _) = None"

fun is_object :: "val \<Rightarrow> bool" where
  "is_object (VObject kvs) = True"
| "is_object _ = False"

text \<open>
  Modelled from the spec: one pair against the result so far (\<open>None\<close> is the unset
  result). With no keys the pair concerns the whole document, and so does a pair with
  keys that meets a whole document that is not an object: both conflicts carry the
  whole-document message. Any other conflict names the ref of the pair, which is what
  each conflict case of \<^verbatim>\<open>TestMakeRequest\<close> expects.
\<close>

definition build_pair :: "val list \<times> val \<Rightarrow> val option \<Rightarrow> build_error + val option" where
  "build_pair pair result =
     (case ref_keys (fst pair) of
        Inl err \<Rightarrow> Inl err
      | Inr keys \<Rightarrow>
          if keys = [] then
            (case place [] (snd pair) result of
               None \<Rightarrow> Inl conflict_values
             | Some doc \<Rightarrow> Inr (Some doc))
          else if (case result of Some old \<Rightarrow> \<not> is_object old | None \<Rightarrow> False) then
            Inl conflict_values
          else
            (case place keys (snd pair) result of
               None \<Rightarrow> Inl (conflict_value keys)
             | Some doc \<Rightarrow> Inr (Some doc)))"

fun build_from :: "(val list \<times> val) list \<Rightarrow> val option \<Rightarrow> build_error + val option" where
  "build_from [] result = Inr result"
| "build_from (pair # pairs) result =
     (case build_pair pair result of
        Inl err \<Rightarrow> Inl err
      | Inr result' \<Rightarrow> build_from pairs result')"

definition build :: "(val list \<times> val) list \<Rightarrow> build_error + val option" where
  "build pairs = build_from pairs None"

section \<open>Collaborators to run the server on\<close>

text \<open>
  The theorems below hold for every store, compiler, parser and evaluator. To run the
  handlers on concrete requests, this section fixes small ones. The store keeps one JSON
  document, entered through objects only, and a module set; a path is a slash followed
  by segments that are not empty, separated by slashes.
\<close>

record mem =
  mem_data :: json
  mem_modules :: "string \<rightharpoonup> path list"

fun lookup :: "json \<Rightarrow> path \<Rightarrow> json option" where
  "lookup doc [] = Some doc"
| "lookup (JObject kvs) (k # ks) = (case map_of kvs k of None \<Rightarrow> None | Some c \<Rightarrow> lookup c ks)"
| "lookup _ (k # ks) = None"

fun put :: "json \<Rightarrow> path \<Rightarrow> json \<Rightarrow> json option" where
  "put doc [] v = Some v"
| "put (JObject kvs) [k] v = Some (JObject (object_put k v kvs))"
| "put (JObject kvs) (k # ks) v =
     (case map_of kvs k of
        None \<Rightarrow> None
      | Some c \<Rightarrow> map_option (\<lambda>c'. JObject (object_put k c' kvs)) (put c ks v))"
| "put _ (k # ks) v = None"

fun remove :: "json \<Rightarrow> path \<Rightarrow> json option" where
  "remove doc [] = None"
| "remove (JObject kvs) [k] =
     (if map_of kvs k = None then None else Some (JObject (filter (\<lambda>kv. fst kv \<noteq> k) kvs)))"
| "remove (JObject kvs) (k # ks) =
     (case map_of kvs k of
        None \<Rightarrow> None
      | Some c \<Rightarrow> map_option (\<lambda>c'. JObject (object_put k c' kvs)) (remove c ks))"
| "remove _ (k # ks) = None"

definition not_found :: "path \<Rightarrow> error" where
  "not_found p = StorageError NotFoundErr (concat (map (\<lambda>k. ''/'' @ k) p))"

definition mem_Write :: "mem \<Rightarrow> PatchOp \<Rightarrow> path \<Rightarrow> json \<Rightarrow> error option \<times> mem" where
  "mem_Write st op p v =
     (case (case op of
              AddOp \<Rightarrow> put (mem_data st) p v
            | ReplaceOp \<Rightarrow> if lookup (mem_data st) p = None then None else put (mem_data st) p v
            | RemoveOp \<Rightarrow> remove (mem_data st) p) of
        None \<Rightarrow> (Some (not_found p), st)
      | Some doc \<Rightarrow> (None, st\<lparr>mem_data := doc\<rparr>))"

definition mem_ParsePath :: "string \<Rightarrow> path option" where
  "mem_ParsePath str =
     (case str of
        [] \<Rightarrow> None
      | c # cs \<Rightarrow>
          if c \<noteq> CHR ''/'' then None
          else if cs = [] then Some []
          else if [] \<in> set (Split cs (CHR ''/'')) then None
          else Some (Split cs (CHR ''/'')))"

definition mem_Storage :: "(mem, path list) Storage" where
  "mem_Storage =
     \<lparr>NewTransaction = (\<lambda>st. None),
      Read = (\<lambda>st p. case lookup (mem_data st) p of None \<Rightarrow> Inl (not_found p) | Some v \<Rightarrow> Inr v),
      Write = mem_Write,
      ParsePath = mem_ParsePath,
      PathRef = (\<lambda>p. DefaultRootDocument # map StringTerm p),
      ListPolicies = mem_modules,
      GetPolicy = (\<lambda>st ident. case mem_modules st ident of
                                None \<Rightarrow> Inl (not_found [ident])
                              | Some m \<Rightarrow> Inr (m, [])),
      InsertPolicy = (\<lambda>st ident m raw pers.
                        (None, st\<lparr>mem_modules := (mem_modules st)(ident \<mapsto> m)\<rparr>)),
      DeletePolicy = (\<lambda>st ident.
                        (None, st\<lparr>mem_modules := (mem_modules st)(ident := None)\<rparr>))\<rparr>"

text \<open>
  A module here is the list of the paths at which its rules define documents, and its
  source is one such path. The compiler knows two module names: \<^verbatim>\<open>q\<close> refers to \<^verbatim>\<open>p\<close>,
  so a set with \<^verbatim>\<open>q\<close> and without \<^verbatim>\<open>p\<close> does not compile; the rules of \<^verbatim>\<open>p\<close> are the
  virtual documents, and a reference has rules when it is at or under one of them.
\<close>

definition two_module_Ast :: "(path list, string \<rightharpoonup> path list, path) Ast" where
  "two_module_Ast =
     \<lparr>ParseModule = (\<lambda>ident src.
         if src = [] then Inr None
         else if hd src \<noteq> CHR ''/'' then Inl (AstErrors [''no rule''])
         else Inr (Some [Split (tl src) (CHR ''/'')])),
      Compile = (\<lambda>mods. mods),
      Failed = (\<lambda>c. c ''q'' \<noteq> None \<and> c ''p'' = None),
      Errors = (\<lambda>c. [''q refers to p'']),
      Modules = (\<lambda>c. c),
      GetRulesForVirtualDocument = (\<lambda>c r.
         case c ''p'' of
           None \<Rightarrow> None
         | Some heads \<Rightarrow>
             (case filter (\<lambda>h. take (Suc (length h)) r = DefaultRootDocument # map StringTerm h)
                     heads of
                [] \<Rightarrow> None
              | hs \<Rightarrow> Some hs))\<rparr>"

text \<open>
  Two servers: one as \<^verbatim>\<open>New\<close> makes it on an empty store, and one whose module \<^verbatim>\<open>p\<close>
  has a rule that defines the document at \<^verbatim>\<open>/a\<close>, over a store with no data.
\<close>

definition empty_mem :: mem where
  "empty_mem = \<lparr>mem_data = JObject [], mem_modules = Map.empty\<rparr>"

definition empty_server :: "(mem, string \<rightharpoonup> path list) Server" where
  "empty_server = \<lparr>persist = False, compiler = Map.empty, store = empty_mem\<rparr>"

definition virtual_a_server :: "(mem, string \<rightharpoonup> path list) Server" where
  "virtual_a_server =
     \<lparr>persist = False,
      compiler = [''p'' \<mapsto> [[''a'']]],
      store = \<lparr>mem_data = JObject [], mem_modules = [''p'' \<mapsto> [[''a'']]]\<rparr>\<rparr>"

text \<open>
  An evaluator that answers every ground query with one given result, no bindings and
  no trace.
\<close>

definition answering :: "json \<Rightarrow> (mem, string \<rightharpoonup> path list, val option, unit) Topdown" where
  "answering result =
     \<lparr>Query = (\<lambda>c st input p. Inr ([(result, [])], [])),
      Truth = (\<lambda>c buf. Inr buf),
      parseInput = (\<lambda>inputs. Inr (None, False))\<rparr>"

text \<open>
  A parser for a fragment of the term language: decimal numbers, double-quoted strings
  without a quote inside, \<^verbatim>\<open>true\<close>, \<^verbatim>\<open>false\<close>, \<^verbatim>\<open>null\<close>, variables and dotted references
  whose parts are made of letters and underscores. Every other text is a parse error
  here.
\<close>

definition is_letter :: "char \<Rightarrow> bool" where
  "is_letter c =
     (let n = (of_char c :: nat)
      in (65 \<le> n \<and> n \<le> 90) \<or> (97 \<le> n \<and> n \<le> 122) \<or> n = 95)"

definition is_name :: "string \<Rightarrow> bool" where
  "is_name s = (s \<noteq> [] \<and> list_all is_letter s)"

definition fragment_ParseTerm :: "string \<Rightarrow> error + val" where
  "fragment_ParseTerm s =
     (if s = ''true'' then Inr (VBoolean True)
      else if s = ''false'' then Inr (VBoolean False)
      else if s = ''null'' then Inr VNull
      else if s \<noteq> [] \<and> digits s 0 \<noteq> None then Inr (VNumber (fst (ParseInt s)))
      else if 2 \<le> length s \<and> hd s = CHR 0x22 \<and> last s = CHR 0x22
              \<and> CHR 0x22 \<notin> set (butlast (tl s))
      then Inr (VString (butlast (tl s)))
      else if list_all is_name (Split s (CHR ''.''))
      then (case Split s (CHR ''.'') of
              [x] \<Rightarrow> Inr (VVar x)
            | x # xs \<Rightarrow> Inr (VRef (VVar x # map VString xs))
            | [] \<Rightarrow> Inl (OtherError ''no match found''))
      else Inl (OtherError ''no match found''))"

fun vars_of :: "val \<Rightarrow> string list" where
  "vars_of (VVar x) = [x]"
| "vars_of (VRef (VVar x # r)) = [x]"
| "vars_of _ = []"

fun key_ref :: "val \<Rightarrow> val list" where
  "key_ref (VRef r) = r"
| "key_ref t = [t]"

fun build_error_text :: "build_error \<Rightarrow> error" where
  "build_error_text (ConflictError msg) = OtherError msg"
| "build_error_text (PathError r) = Wrapped ''invalid request path'' (OtherError ''invalid path'')"

definition fragment_Terms :: "(val, val option) Terms" where
  "fragment_Terms =
     \<lparr>ParseTerm = fragment_ParseTerm,
      EmptyRef = VRef [],
      WalkVars = vars_of,
      MakeRequest = (\<lambda>pairs.
         case build (map (\<lambda>kv. (key_ref (fst kv), snd kv)) pairs) of
           Inl err \<Rightarrow> Inl (build_error_text err)
         | Inr request \<Rightarrow> Inr request)\<rparr>"

section \<open>The status of an error response\<close>

lemma find_recognized_chain:
  "find recognized (cause_chain e) = (if recognized (Cause e) then Some (Cause e) else None)"
  by (induction e) (simp_all add: recognized_def)

lemma Cause_not_Wrapped: "Cause e \<noteq> Wrapped m e'"
  by (induction e) simp_all

lemma compare_panics_Wrapped [simp]:
  "compare_panics e (Wrapped m e') = False" "compare_panics (Wrapped m e') e = False"
  by (cases e; simp)+

lemma compare_panics_same:
  "compare_panics e e = ((\<exists>es. e = AstErrors es) \<or> (\<exists>p. e = WriteConflictError p))"
  by (cases e) simp_all

lemma handleErrorAuto_loop_root:
  assumes "Cause e = e" and "prev \<noteq> Some e"
    and "\<not> (case prev of None \<Rightarrow> False | Some p \<Rightarrow> compare_panics e p)"
  shows "(handleErrorAuto_loop err prev e :: 'b response outcome) =
     (case e of
        AstErrors es \<Rightarrow> Panicked
      | _ \<Rightarrow> Returned (handleError (kind_status e) err))"
  using assms
  by (subst handleErrorAuto_loop.simps, subst handleErrorAuto_loop.simps)
     (cases e; simp add: kind_status_def)

lemma handleErrorAuto_loop_Wrapped:
  assumes "prev \<noteq> Some (Wrapped m e)"
  shows "(handleErrorAuto_loop err prev (Wrapped m e) :: 'b response outcome) =
     (case Cause e of
        AstErrors es \<Rightarrow> Panicked
      | _ \<Rightarrow> Returned (handleError (kind_status (Cause e)) err))"
proof -
  have "(handleErrorAuto_loop err prev (Wrapped m e) :: 'b response outcome) =
      handleErrorAuto_loop err (Some (Wrapped m e)) (Cause e)"
    using assms by (subst handleErrorAuto_loop.simps) (simp split: option.splits)
  also have "\<dots> = (case Cause e of
        AstErrors es \<Rightarrow> Panicked
      | _ \<Rightarrow> Returned (handleError (kind_status (Cause e)) err))"
    using Cause_not_Wrapped[of e m e]
    by (intro handleErrorAuto_loop_root) (simp_all add: Cause_idem)
  finally show ?thesis .
qed

lemma handleErrorAuto_Cause:
  "(handleErrorAuto err :: 'b response outcome) =
     (case Cause err of
        AstErrors es \<Rightarrow> Panicked
      | _ \<Rightarrow> Returned (handleError (kind_status (Cause err)) err))"
proof (cases "\<exists>m e. err = Wrapped m e")
  case True
  then obtain m e where e: "err = Wrapped m e" by blast
  show ?thesis
    unfolding e handleErrorAuto_def
    using handleErrorAuto_loop_Wrapped[of None m e "Wrapped m e"]
    by (simp cong: error.case_cong)
next
  case False
  then have c: "Cause err = err" by (cases err) simp_all
  show ?thesis
    unfolding handleErrorAuto_def c
    by (rule handleErrorAuto_loop_root) (simp_all add: c)
qed

lemma handleErrorAuto_recognized:
  "(handleErrorAuto (StorageError c msg) :: 'b response outcome) =
     Returned (handleError (kind_status (StorageError c msg)) (StorageError c msg))"
  "(handleErrorAuto (WriteConflictError p) :: 'b response outcome) =
     Returned (handleError 404 (WriteConflictError p))"
  "(handleErrorAuto (badRequestError text) :: 'b response outcome) =
     Returned (handleError 400 (badRequestError text))"
  by (simp_all add: handleErrorAuto_Cause kind_status_def)

text \<open>
  For an error whose root cause is of a comparable type, the responder answers with the
  error it was given and with the status of the first recognized kind on the error's
  cause chain: 404 for NotFound and for WriteConflict, 400 for BadRequest and for
  InvalidPatch, and 500 when no error of the chain is of a recognized kind.
\<close>

lemma handleErrorAuto_first_recognized:
  assumes "\<forall>es. Cause err \<noteq> AstErrors es"
  shows "(handleErrorAuto err :: 'b response outcome) =
     Returned (handleError (case find recognized (cause_chain err) of
                              None \<Rightarrow> 500
                            | Some e \<Rightarrow> kind_status e) err)"
proof -
  have "(case find recognized (cause_chain err) of None \<Rightarrow> 500 | Some e \<Rightarrow> kind_status e)
      = kind_status (Cause err)"
    by (simp add: find_recognized_chain recognized_def kind_status_def)
  then show ?thesis
    using assms by (simp add: handleErrorAuto_Cause split: error.splits)
qed

lemma kind_status_values:
  "kind_status (StorageError NotFoundErr msg) = 404"
  "kind_status (WriteConflictError p) = 404"
  "kind_status (badRequestError text) = 400"
  "kind_status (StorageError InvalidPatchErr msg) = 400"
  by (simp_all add: kind_status_def)

text \<open>
  Claim C6, at the input where the code departs from it. An \<^verbatim>\<open>ast.Errors\<close> value is an
  error with no recognized kind anywhere in its cause chain, so the claim gives status
  500. The first round of the loop recognizes nothing and sets \<^verbatim>\<open>prev\<close> to the error;
  \<^verbatim>\<open>errors.Cause\<close> gives the same error back, and the loop test \<^verbatim>\<open>curr != prev\<close> then
  compares two interface values of the slice type \<^verbatim>\<open>ast.Errors\<close>: the responder panics
  and writes no response. The same happens when such an error is wrapped.
\<close>

theorem handleErrorAuto_uncomparable_root:
  "find recognized (cause_chain (AstErrors es)) = None
   \<and> (handleErrorAuto (AstErrors es) :: 'b response outcome) = Panicked
   \<and> find recognized (cause_chain (Wrapped m (AstErrors es))) = None
   \<and> (handleErrorAuto (Wrapped m (AstErrors es)) :: 'b response outcome) = Panicked"
  by (simp add: handleErrorAuto_Cause recognized_def)

section \<open>Policy writes recompile the whole module set\<close>

lemma InsertPolicy_ok:
  "policy_store_ok S \<Longrightarrow> InsertPolicy S st i m raw pers = (None, st') \<Longrightarrow>
   ListPolicies S st' = (ListPolicies S st)(i \<mapsto> m)"
  unfolding policy_store_ok_def by (metis fst_conv snd_conv)

lemma InsertPolicy_error:
  "policy_store_ok S \<Longrightarrow> InsertPolicy S st i m raw pers = (Some e, st') \<Longrightarrow>
   ListPolicies S st' = ListPolicies S st"
  unfolding policy_store_ok_def by (metis fst_conv snd_conv option.distinct(1))

lemma DeletePolicy_ok:
  "policy_store_ok S \<Longrightarrow> DeletePolicy S st i = (None, st') \<Longrightarrow>
   ListPolicies S st' = (ListPolicies S st)(i := None)"
  unfolding policy_store_ok_def by (metis fst_conv snd_conv)

lemma DeletePolicy_error:
  "policy_store_ok S \<Longrightarrow> DeletePolicy S st i = (Some e, st') \<Longrightarrow>
   ListPolicies S st' = ListPolicies S st"
  unfolding policy_store_ok_def by (metis fst_conv snd_conv option.distinct(1))

lemma v1PoliciesPut_keeps_snapshot:
  assumes "policy_store_ok S" and "snapshot_current S A srv"
  shows "snapshot_current S A (snd (v1PoliciesPut S A srv i body))"
  using assms
  by (auto simp: v1PoliciesPut_def snapshot_current_def Let_def setCompiler_def
      InsertPolicy_ok InsertPolicy_error
      split: sum.splits option.splits error.splits prod.splits)

lemma v1PoliciesDelete_keeps_snapshot:
  assumes "policy_store_ok S" and "snapshot_current S A srv"
  shows "snapshot_current S A (snd (v1PoliciesDelete S A srv i))"
  using assms
  by (auto simp: v1PoliciesDelete_def snapshot_current_def Let_def setCompiler_def
      DeletePolicy_ok DeletePolicy_error
      split: sum.splits option.splits prod.splits)

lemma policy_handler_keeps_snapshot:
  "policy_store_ok S \<Longrightarrow> snapshot_current S A srv \<Longrightarrow>
   snapshot_current S A (snd (policy_handler S A srv req))"
  by (cases req) (simp_all add: v1PoliciesPut_keeps_snapshot v1PoliciesDelete_keeps_snapshot)

lemma serve_policies_keeps_snapshot:
  "policy_store_ok S \<Longrightarrow> snapshot_current S A srv \<Longrightarrow>
   snapshot_current S A (serve_policies S A srv reqs)"
  by (induction reqs arbitrary: srv) (simp_all add: policy_handler_keeps_snapshot)

lemma policy_change_was_compiled:
  "snd (policy_handler S A srv req) \<noteq> srv \<Longrightarrow>
   \<exists>mods. requested_modules A (ListPolicies S (store srv)) req = Some mods \<and>
     \<not> Failed A (Compile A mods)"
  by (cases req)
     (auto simp: v1PoliciesPut_def v1PoliciesDelete_def Let_def
      split: sum.splits option.splits error.splits prod.splits)

lemma policy_compile_failure:
  assumes "requested_modules A (ListPolicies S (store srv)) req = Some mods"
    and "Failed A (Compile A mods)"
  shows "snd (policy_handler S A srv req) = srv"
    and "NewTransaction S (store srv) = None \<Longrightarrow>
         (\<And>ident. req = PoliciesDelete ident \<Longrightarrow> \<exists>found. GetPolicy S (store srv) ident = Inr found) \<Longrightarrow>
         fst (policy_handler S A srv req) =
           Returned (handleErrorAST 400 compileModErrMsg (Errors A (Compile A mods)))"
  using assms
  by (cases req;
      auto simp: v1PoliciesPut_def v1PoliciesDelete_def Let_def
      split: sum.splits option.splits error.splits prod.splits)+

lemma New_snapshot: "New S A st pers = Inr srv \<Longrightarrow> snapshot_current S A srv"
  by (auto simp: New_def snapshot_current_def Let_def split: option.splits if_splits)

text \<open>
  Claim C1. A policy PUT or DELETE compiles the whole module set with the requested
  change applied before it commits anything: the server changes only when that
  compilation has succeeded; when it fails, the server (stored modules and compiler) is
  left as it was and, if the request got as far as the compiler, the response is the
  400 compile error. So a server made by \<^verbatim>\<open>New\<close> starts with, and any sequence of policy
  requests keeps, a compiler that is the successful compilation of exactly the stored
  module set.
\<close>

theorem policy_writes_recompile:
  assumes "policy_store_ok S" and "snapshot_current S A srv"
  shows "snapshot_current S A (serve_policies S A srv reqs)
     \<and> (snd (policy_handler S A srv req) \<noteq> srv \<longrightarrow>
          (\<exists>mods. requested_modules A (ListPolicies S (store srv)) req = Some mods \<and>
             \<not> Failed A (Compile A mods)))
     \<and> (requested_modules A (ListPolicies S (store srv)) req = Some mods' \<and>
          Failed A (Compile A mods') \<longrightarrow>
            snd (policy_handler S A srv req) = srv \<and>
            (NewTransaction S (store srv) = None \<and>
             (\<forall>ident. req = PoliciesDelete ident \<longrightarrow>
                (\<exists>found. GetPolicy S (store srv) ident = Inr found)) \<longrightarrow>
             fst (policy_handler S A srv req) =
               Returned (handleErrorAST 400 compileModErrMsg (Errors A (Compile A mods')))))
     \<and> (New S A st pers = Inr srv0 \<longrightarrow> snapshot_current S A srv0)"
  using serve_policies_keeps_snapshot[OF assms] policy_change_was_compiled[of S A srv req]
    policy_compile_failure[of A S srv req mods'] New_snapshot[of S A st pers srv0]
  by blast

theorem policy_writes_recompile_witness:
  "policy_store_ok mem_Storage
   \<and> snapshot_current mem_Storage two_module_Ast empty_server
   \<and> snapshot_current mem_Storage two_module_Ast
        (serve_policies mem_Storage two_module_Ast empty_server
           [PoliciesPut ''q'' (Inr ''/b''), PoliciesPut ''p'' (Inr ''/a''),
            PoliciesPut ''q'' (Inr ''/b''), PoliciesDelete ''p''])
   \<and> requested_modules two_module_Ast (ListPolicies mem_Storage (store empty_server))
        (PoliciesPut ''q'' (Inr ''/b'')) = Some [''q'' \<mapsto> [[''b'']]]
   \<and> Failed two_module_Ast (Compile two_module_Ast [''q'' \<mapsto> [[''b'']]])
   \<and> policy_handler mem_Storage two_module_Ast empty_server (PoliciesPut ''q'' (Inr ''/b''))
       = (Returned (handleErrorAST 400 compileModErrMsg [''q refers to p'']), empty_server)
   \<and> New mem_Storage two_module_Ast empty_mem False = Inr empty_server"
proof -
  have ok: "policy_store_ok mem_Storage"
    by (simp add: policy_store_ok_def mem_Storage_def)
  have cur: "snapshot_current mem_Storage two_module_Ast empty_server"
    by (simp add: snapshot_current_def mem_Storage_def two_module_Ast_def empty_server_def
        empty_mem_def)
  have req: "requested_modules two_module_Ast (ListPolicies mem_Storage (store empty_server))
        (PoliciesPut ''q'' (Inr ''/b'')) = Some [''q'' \<mapsto> [[''b'']]]"
    by (simp add: two_module_Ast_def mem_Storage_def empty_server_def empty_mem_def)
  have failed: "Failed two_module_Ast (Compile two_module_Ast [''q'' \<mapsto> [[''b'']]])"
    by (simp add: two_module_Ast_def)
  have new: "New mem_Storage two_module_Ast empty_mem False = Inr empty_server"
    by (simp add: New_def Let_def mem_Storage_def two_module_Ast_def empty_server_def empty_mem_def)
  have tx: "NewTransaction mem_Storage (store empty_server) = None"
    by (simp add: mem_Storage_def)
  have errs: "Errors two_module_Ast (Compile two_module_Ast [''q'' \<mapsto> [[''b'']]]) = [''q refers to p'']"
    by (simp add: two_module_Ast_def)
  note main = policy_writes_recompile[OF ok cur,
        of "[PoliciesPut ''q'' (Inr ''/b''), PoliciesPut ''p'' (Inr ''/a''),
            PoliciesPut ''q'' (Inr ''/b''), PoliciesDelete ''p'']"
           "PoliciesPut ''q'' (Inr ''/b'')" "[''q'' \<mapsto> [[''b'']]]" empty_mem False empty_server]
  from main have run: "snapshot_current mem_Storage two_module_Ast
        (serve_policies mem_Storage two_module_Ast empty_server
           [PoliciesPut ''q'' (Inr ''/b''), PoliciesPut ''p'' (Inr ''/a''),
            PoliciesPut ''q'' (Inr ''/b''), PoliciesDelete ''p''])"
    by (rule conjunct1)
  from main req failed tx errs
  have "snd (policy_handler mem_Storage two_module_Ast empty_server (PoliciesPut ''q'' (Inr ''/b'')))
          = empty_server
      \<and> fst (policy_handler mem_Storage two_module_Ast empty_server (PoliciesPut ''q'' (Inr ''/b'')))
          = Returned (handleErrorAST 400 compileModErrMsg [''q refers to p''])"
    by simp
  then have resp: "policy_handler mem_Storage two_module_Ast empty_server (PoliciesPut ''q'' (Inr ''/b''))
       = (Returned (handleErrorAST 400 compileModErrMsg [''q refers to p'']), empty_server)"
    by (simp add: prod_eq_iff)
  show ?thesis
    using ok cur run req failed resp new by (intro conjI)
qed

section \<open>A patch is validated before it is applied\<close>

lemma prepare_loop_first_error:
  "list_all (\<lambda>op. \<exists>impl. prepare_op S A srv root op = Inr impl) pre \<Longrightarrow>
   prepare_op S A srv root op = Inl err \<Longrightarrow>
   prepareV1PatchSlice_loop S A srv root (pre @ op # post) result = Inl err"
  by (induction pre arbitrary: result) auto

lemma v1DataPatch_not_prepared:
  assumes "prepareV1PatchSlice S A srv root ops = Inl err"
  shows "snd (v1DataPatch S A srv root (Inr ops) :: 'b response outcome \<times> _) = srv"
    and "NewTransaction S (store srv) = None \<Longrightarrow>
         fst (v1DataPatch S A srv root (Inr ops) :: 'b response outcome \<times> _) = handleErrorAuto err"
  using assms by (auto simp: v1DataPatch_def split: option.splits)

text \<open>
  Claim C9. A PATCH validates its ops in order before it writes: an op whose name is
  not add, remove or replace fails with the bad-patch-operation error naming it; an op
  whose joined, slash-stripped path the store's path parser refuses fails with the
  bad-patch-path error carrying the path as the client wrote it; both are answered with
  400. When some op of the list fails validation, the request ends with the error of
  the first such op and the server is as it was: no write of the list has run.
\<close>

theorem patch_validated_before_write:
  "(list_all (\<lambda>op. \<exists>impl. prepare_op S A srv (''/'' @ Trim root) op = Inr impl) pre \<and>
    prepare_op S A srv (''/'' @ Trim root) op = Inl err \<longrightarrow>
      prepareV1PatchSlice S A srv root (pre @ op # post) = Inl err \<and>
      snd (v1DataPatch S A srv root (Inr (pre @ op # post)) :: 'b response outcome \<times> ('s, 'c) Server) = srv \<and>
      (NewTransaction S (store srv) = None \<longrightarrow>
         fst (v1DataPatch S A srv root (Inr (pre @ op # post)) :: 'b response outcome \<times> ('s, 'c) Server)
           = handleErrorAuto err))
   \<and> (opName \<noteq> ''add'' \<and> opName \<noteq> ''remove'' \<and> opName \<noteq> ''replace'' \<longrightarrow>
        prepare_op S A srv r (patchV1 opName opPath v) = Inl (badPatchOperationError opName))
   \<and> (patch_operation opName \<noteq> None \<and>
       ParsePath S (if length (Trim opPath) > 0 then r @ ''/'' @ Trim opPath else r) = None \<longrightarrow>
        prepare_op S A srv r (patchV1 opName opPath v) = Inl (badPatchPathError opPath))
   \<and> (handleErrorAuto (badPatchOperationError opName) :: 'b response outcome)
       = Returned (handleError 400 (badPatchOperationError opName))
   \<and> (handleErrorAuto (badPatchPathError opPath) :: 'b response outcome)
       = Returned (handleError 400 (badPatchPathError opPath))
   \<and> status (handleError 400 err :: 'b response) = 400"
proof -
  have a: "list_all (\<lambda>op. \<exists>impl. prepare_op S A srv (''/'' @ Trim root) op = Inr impl) pre \<and>
    prepare_op S A srv (''/'' @ Trim root) op = Inl err \<longrightarrow>
      prepareV1PatchSlice S A srv root (pre @ op # post) = Inl err"
    by (simp add: prepareV1PatchSlice_def prepare_loop_first_error)
  have b: "opName \<noteq> ''add'' \<and> opName \<noteq> ''remove'' \<and> opName \<noteq> ''replace'' \<longrightarrow>
        prepare_op S A srv r (patchV1 opName opPath v) = Inl (badPatchOperationError opName)"
    by (simp add: prepare_op_def patch_operation_def)
  have c: "patch_operation opName \<noteq> None \<and>
       ParsePath S (if length (Trim opPath) > 0 then r @ ''/'' @ Trim opPath else r) = None \<longrightarrow>
        prepare_op S A srv r (patchV1 opName opPath v) = Inl (badPatchPathError opPath)"
    by (auto simp: prepare_op_def Let_def)
  have d: "(handleErrorAuto (badPatchOperationError opName) :: 'b response outcome)
       = Returned (handleError 400 (badPatchOperationError opName))"
    "(handleErrorAuto (badPatchPathError opPath) :: 'b response outcome)
       = Returned (handleError 400 (badPatchPathError opPath))"
    "status (handleError 400 err :: 'b response) = 400"
    by (simp_all add: handleErrorAuto_recognized badPatchOperationError_def badPatchPathError_def
        handleError_def)
  show ?thesis
    using a b c d v1DataPatch_not_prepared[of S A srv root "pre @ op # post" err]
    by blast
qed

theorem patch_validated_before_write_witness:
  "list_all (\<lambda>op. \<exists>impl. prepare_op mem_Storage two_module_Ast empty_server (''/'' @ Trim ''x'') op = Inr impl)
      [patchV1 ''add'' ''/y'' (JNumber ''1'')]
   \<and> prepare_op mem_Storage two_module_Ast empty_server (''/'' @ Trim ''x'') (patchV1 ''move'' ''/y'' JNull)
       = Inl (badPatchOperationError ''move'')
   \<and> (v1DataPatch mem_Storage two_module_Ast empty_server ''x''
        (Inr ([patchV1 ''add'' ''/y'' (JNumber ''1'')] @ patchV1 ''move'' ''/y'' JNull # [])) :: unit response outcome \<times> _)
       = (handleErrorAuto (badPatchOperationError ''move''), empty_server)
   \<and> prepare_op mem_Storage two_module_Ast empty_server ''/x'' (patchV1 ''add'' ''/y//z'' JNull)
       = Inl (badPatchPathError ''/y//z'')"
proof -
  have tr: "Trim ''x'' = ''x''" "Trim ''/y'' = ''y''" "Trim ''/y//z'' = ''y//z''"
    by (simp_all add: Trim_def)
  have pp: "mem_ParsePath ''/x/y'' = Some [''x'', ''y'']" "mem_ParsePath ''/x/y//z'' = None"
    by (simp_all add: mem_ParsePath_def)
  have ok: "list_all (\<lambda>op. \<exists>impl. prepare_op mem_Storage two_module_Ast empty_server (''/'' @ Trim ''x'') op = Inr impl)
      [patchV1 ''add'' ''/y'' (JNumber ''1'')]"
    by (simp add: prepare_op_def patch_operation_def tr pp Let_def mem_Storage_def writeConflict_def
        two_module_Ast_def empty_server_def)
  have bad: "prepare_op mem_Storage two_module_Ast empty_server (''/'' @ Trim ''x'') (patchV1 ''move'' ''/y'' JNull)
       = Inl (badPatchOperationError ''move'')"
    by (simp add: prepare_op_def patch_operation_def)
  have tx: "NewTransaction mem_Storage (store empty_server) = None"
    by (simp add: mem_Storage_def)
  have po: "patch_operation ''add'' \<noteq> None" by (simp add: patch_operation_def)
  have pn: "ParsePath mem_Storage (if length (Trim ''/y//z'') > 0 then ''/x'' @ ''/'' @ Trim ''/y//z'' else ''/x'') = None"
    by (simp add: tr pp mem_Storage_def)
  note main = patch_validated_before_write[of mem_Storage two_module_Ast empty_server "''x''"
      "[patchV1 ''add'' ''/y'' (JNumber ''1'')]" "patchV1 ''move'' ''/y'' JNull"
      "badPatchOperationError ''move''" "[]" "''add''" "''/x''" "''/y//z''" JNull, where ?'b = unit]
  from main ok bad tx
  have "(v1DataPatch mem_Storage two_module_Ast empty_server ''x''
        (Inr ([patchV1 ''add'' ''/y'' (JNumber ''1'')] @ patchV1 ''move'' ''/y'' JNull # [])) :: unit response outcome \<times> _)
       = (handleErrorAuto (badPatchOperationError ''move''), empty_server)"
    by (simp add: prod_eq_iff)
  moreover from main po pn
  have "prepare_op mem_Storage two_module_Ast empty_server ''/x'' (patchV1 ''add'' ''/y//z'' JNull)
       = Inl (badPatchPathError ''/y//z'')"
    by blast
  ultimately show ?thesis using ok bad by (intro conjI)
qed

section \<open>Creating the ancestors of a new document\<close>

lemma materialize_snoc:
  "materialize S A srv (ps @ [p]) =
     (case materialize S A srv ps of
        (Some err, srv') \<Rightarrow> (Some err, srv')
      | (None, srv') \<Rightarrow>
          (case writeConflict S A srv' AddOp p of
             Some err \<Rightarrow> (Some err, srv')
           | None \<Rightarrow>
               (case Write S (store srv') AddOp p (JObject []) of
                  (werr, st) \<Rightarrow> (werr, srv'\<lparr>store := st\<rparr>))))"
  by (induction ps arbitrary: srv) (auto split: option.splits prod.splits)

lemma makeDir_existing:
  "\<not> missing S (store srv) p \<Longrightarrow>
   makeDir S A srv p =
     (case Read S (store srv) p of
        Inr (JObject kvs) \<Rightarrow> Returned (None, srv)
      | Inr _ \<Rightarrow> Returned (Some (WriteConflictError p), srv)
      | Inl err \<Rightarrow> Returned (Some err, srv))"
  by (subst makeDir.simps) (auto simp: missing_def split: sum.splits json.splits)

lemma makeDir_missing:
  "missing S (store srv) p \<Longrightarrow> p \<noteq> [] \<Longrightarrow>
   makeDir S A srv p =
     (case makeDir S A srv (butlast p) of
        Panicked \<Rightarrow> Panicked
      | Returned (Some err', srv') \<Rightarrow> Returned (Some err', srv')
      | Returned (None, srv') \<Rightarrow>
          (case writeConflict S A srv' AddOp p of
             Some err' \<Rightarrow> Returned (Some err', srv')
           | None \<Rightarrow>
               (case Write S (store srv') AddOp p (JObject []) of
                  (werr, st) \<Rightarrow> Returned (werr, srv'\<lparr>store := st\<rparr>))))"
  by (subst makeDir.simps) (auto simp: missing_def split: sum.splits)

lemma makeDir_root_missing:
  "missing S (store srv) [] \<Longrightarrow> makeDir S A srv [] = Panicked"
  by (subst makeDir.simps) (auto simp: missing_def split: sum.splits)

lemma makeDir_all_missing:
  "\<forall>j\<le>n. missing S (store srv) (take j p) \<Longrightarrow> n \<le> length p \<Longrightarrow>
   makeDir S A srv (take n p) = Panicked"
proof (induction n)
  case 0
  then show ?case using makeDir_root_missing[of S srv A] by simp
next
  case (Suc n)
  then have m: "missing S (store srv) (take (Suc n) p)" and ne: "take (Suc n) p \<noteq> []"
    by auto
  have bl: "butlast (take (Suc n) p) = take n p"
    using Suc.prems(2) by (simp add: butlast_take)
  from Suc have "makeDir S A srv (take n p) = Panicked" by simp
  then show ?case
    using makeDir_missing[OF m ne, of A] by (simp add: bl)
qed

lemma makeDir_materialize:
  assumes "\<not> missing S (store srv) (take k p)"
    and "\<forall>j. k < j \<and> j \<le> n \<longrightarrow> missing S (store srv) (take j p)"
    and "k \<le> n" and "n \<le> length p"
  shows "makeDir S A srv (take n p) =
     (case Read S (store srv) (take k p) of
        Inr (JObject kvs) \<Rightarrow>
          Returned (materialize S A srv (map (\<lambda>j. take j p) [Suc k..<Suc n]))
      | Inr _ \<Rightarrow> Returned (Some (WriteConflictError (take k p)), srv)
      | Inl err \<Rightarrow> Returned (Some err, srv))"
  using assms(2-4)
proof (induction n)
  case 0
  then show ?case using makeDir_existing[OF assms(1), of A]
    by (auto split: sum.splits json.splits)
next
  case (Suc n)
  show ?case
  proof (cases "k = Suc n")
    case True
    then show ?thesis using makeDir_existing[OF assms(1), of A]
      by (auto split: sum.splits json.splits)
  next
    case False
    with Suc.prems have kn: "k \<le> n" and m: "missing S (store srv) (take (Suc n) p)"
      and ne: "take (Suc n) p \<noteq> []" and le: "n \<le> length p"
      by auto
    have bl: "butlast (take (Suc n) p) = take n p"
      using Suc.prems(3) by (simp add: butlast_take)
    have IH: "makeDir S A srv (take n p) =
     (case Read S (store srv) (take k p) of
        Inr (JObject kvs) \<Rightarrow>
          Returned (materialize S A srv (map (\<lambda>j. take j p) [Suc k..<Suc n]))
      | Inr _ \<Rightarrow> Returned (Some (WriteConflictError (take k p)), srv)
      | Inl err \<Rightarrow> Returned (Some err, srv))"
      using Suc.IH Suc.prems kn le by simp
    define M where "M = materialize S A srv (map (\<lambda>j. take j p) [Suc k..<Suc n])"
    have up: "[Suc k..<Suc (Suc n)] = [Suc k..<Suc n] @ [Suc n]"
      using kn by simp
    have eq: "materialize S A srv (map (\<lambda>j. take j p) [Suc k..<Suc (Suc n)]) =
     (case M of
        (Some err, srv') \<Rightarrow> (Some err, srv')
      | (None, srv') \<Rightarrow>
          (case writeConflict S A srv' AddOp (take (Suc n) p) of
             Some err \<Rightarrow> (Some err, srv')
           | None \<Rightarrow>
               (case Write S (store srv') AddOp (take (Suc n) p) (JObject []) of
                  (werr, st) \<Rightarrow> (werr, srv'\<lparr>store := st\<rparr>))))"
      unfolding M_def by (simp only: up map_append list.map materialize_snoc)
    show ?thesis
      unfolding makeDir_missing[OF m ne, of A] bl IH eq M_def[symmetric]
      by (cases M) (auto split: sum.splits json.splits option.splits prod.splits)
  qed
qed

lemma mem_reads:
  "Read mem_Storage st p = (case lookup (mem_data st) p of None \<Rightarrow> Inl (not_found p) | Some v \<Rightarrow> Inr v)"
  "NewTransaction mem_Storage st = None"
  "Write mem_Storage = mem_Write"
  "ParsePath mem_Storage = mem_ParsePath"
  "PathRef mem_Storage p = DefaultRootDocument # map StringTerm p"
  by (simp_all add: mem_Storage_def)

text \<open>
  Claim C5, as amended. A PUT whose target path the store reports as not found is not
  answered with that error. \<^verbatim>\<open>makeDir\<close> reads the ancestors of the path, parent first,
  up to the deepest one that is there (ancestor number \<open>k\<close>). When that ancestor holds
  an object, the missing ancestors below it are taken shallowest first, each one
  checked for a write conflict and written as an empty object, and then the value is
  written at the path; the first check or write that fails ends the request with its
  error. When that ancestor holds a value that is not an object, the request ends with
  a WriteConflict error naming it and nothing is written. A WriteConflict error is
  answered with status 404.
\<close>

theorem put_creates_missing_ancestors:
  assumes "NewTransaction S (store srv) = None"
    and "ParsePath S (''/'' @ Trim pathVar) = Some p"
    and "missing S (store srv) p"
    and "k < length p"
    and "\<not> missing S (store srv) (take k p)"
    and "\<forall>j. k < j \<and> j < length p \<longrightarrow> missing S (store srv) (take j p)"
  shows "(v1DataPut S A srv pathVar (Inr v) ifNoneMatch :: 'b response outcome \<times> ('s, 'c) Server) =
       (case Read S (store srv) (take k p) of
          Inr (JObject kvs) \<Rightarrow>
            (case materialize S A srv (map (\<lambda>j. take j p) [Suc k..<length p]) of
               (Some err, srv') \<Rightarrow> (handleErrorAuto err, srv')
             | (None, srv') \<Rightarrow> put_write S srv' p v)
        | Inr _ \<Rightarrow> (handleErrorAuto (WriteConflictError (take k p)), srv)
        | Inl err \<Rightarrow> (handleErrorAuto err, srv))
   \<and> (handleErrorAuto (WriteConflictError q) :: 'b response outcome)
       = Returned (handleError 404 (WriteConflictError q))
   \<and> status (handleError 404 (WriteConflictError q) :: 'b response) = 404"
proof -
  from assms(4) have ne: "p \<noteq> []" by auto
  have bl: "butlast p = take (length p - 1) p" by (simp add: butlast_conv_take)
  have "Suc (length p - 1) = length p" using assms(4) by simp
  then have up: "[Suc k..<Suc (length p - 1)] = [Suc k..<length p]"
    by (simp only:)
  have md: "makeDir S A srv (butlast p) =
     (case Read S (store srv) (take k p) of
        Inr (JObject kvs) \<Rightarrow>
          Returned (materialize S A srv (map (\<lambda>j. take j p) [Suc k..<length p]))
      | Inr _ \<Rightarrow> Returned (Some (WriteConflictError (take k p)), srv)
      | Inl err \<Rightarrow> Returned (Some err, srv))"
    unfolding bl up[symmetric]
    using assms(4,5,6) by (intro makeDir_materialize) auto
  obtain e where rd: "Read S (store srv) p = Inl e" and nf: "IsNotFound e"
    using assms(3) by (auto simp: missing_def split: sum.splits)
  have "(v1DataPut S A srv pathVar (Inr v) ifNoneMatch :: 'b response outcome \<times> ('s, 'c) Server) =
       (case Read S (store srv) (take k p) of
          Inr (JObject kvs) \<Rightarrow>
            (case materialize S A srv (map (\<lambda>j. take j p) [Suc k..<length p]) of
               (Some err, srv') \<Rightarrow> (handleErrorAuto err, srv')
             | (None, srv') \<Rightarrow> put_write S srv' p v)
        | Inr _ \<Rightarrow> (handleErrorAuto (WriteConflictError (take k p)), srv)
        | Inl err \<Rightarrow> (handleErrorAuto err, srv))"
    unfolding v1DataPut_def
    using assms(1,2) rd nf ne md
    by (simp split: sum.splits json.splits prod.splits option.splits)
  moreover have "(handleErrorAuto (WriteConflictError q) :: 'b response outcome)
       = Returned (handleError 404 (WriteConflictError q))"
    by (simp add: handleErrorAuto_recognized)
  moreover have "status (handleError 404 (WriteConflictError q) :: 'b response) = 404"
    by (simp add: handleError_def)
  ultimately show ?thesis by simp
qed

lemma put_no_ancestor_panics:
  assumes "NewTransaction S (store srv) = None"
    and "ParsePath S (''/'' @ Trim pathVar) = Some p"
    and "\<forall>j\<le>length p. missing S (store srv) (take j p)"
  shows "(v1DataPut S A srv pathVar (Inr v) ifNoneMatch :: 'b response outcome \<times> ('s, 'c) Server)
     = (Panicked, srv)"
proof -
  from assms(3) have m: "missing S (store srv) p" by force
  then obtain e where rd: "Read S (store srv) p = Inl e" and nf: "IsNotFound e"
    by (auto simp: missing_def split: sum.splits)
  show ?thesis
  proof (cases "p = []")
    case True
    then show ?thesis unfolding v1DataPut_def using assms(1,2) rd nf by simp
  next
    case False
    have bl: "butlast p = take (length p - 1) p" by (simp add: butlast_conv_take)
    have "makeDir S A srv (butlast p) = Panicked"
      unfolding bl using makeDir_all_missing[of "length p - 1" S srv p A] assms(3) by simp
    then show ?thesis unfolding v1DataPut_def using assms(1,2) rd nf False by simp
  qed
qed

text \<open>
  The claim as stated fails where a missing ancestor is a virtual document: the target
  is not found, the only ancestor there is (the root) holds an object, and yet the
  request ends with a WriteConflict error for the missing ancestor \<^verbatim>\<open>/a\<close> and writes
  nothing.
\<close>

theorem put_creates_missing_ancestors_counterexample:
  "missing mem_Storage (store virtual_a_server) [''a'', ''b'']
   \<and> missing mem_Storage (store virtual_a_server) [''a'']
   \<and> Read mem_Storage (store virtual_a_server) [] = Inr (JObject [])
   \<and> (v1DataPut mem_Storage two_module_Ast virtual_a_server ''a/b'' (Inr (JNumber ''1'')) ''''
        :: unit response outcome \<times> _)
      = (Returned (ErrorV1 404 (ErrorText (WriteConflictError [''a'']))), virtual_a_server)"
proof -
  have tr: "Trim ''a/b'' = ''a/b''" by (simp add: Trim_def)
  have pp: "mem_ParsePath ''/a/b'' = Some [''a'', ''b'']" by (simp add: mem_ParsePath_def)
  have rules: "GetRulesForVirtualDocument two_module_Ast (compiler virtual_a_server)
      [DefaultRootDocument, StringTerm ''a''] = Some [[''a'']]"
    by (simp add: two_module_Ast_def virtual_a_server_def mem_reads)
  show ?thesis
    by (simp add: v1DataPut_def makeDir.simps missing_def mem_reads tr pp not_found_def
        writeConflict_def rules handleErrorAuto_recognized handleError_def
        virtual_a_server_def[THEN arg_cong, of store] )
qed

theorem put_creates_missing_ancestors_witness:
  "missing mem_Storage (store empty_server) [''x'', ''y'', ''z'']
   \<and> \<not> missing mem_Storage (store empty_server) (take 0 [''x'', ''y'', ''z''])
   \<and> (v1DataPut mem_Storage two_module_Ast empty_server ''x/y/z'' (Inr (JNumber ''1'')) ''''
        :: unit response outcome \<times> _)
      = (Returned (Bytes 204 None),
          empty_server\<lparr>store := \<lparr>mem_data =
              JObject [(''x'', JObject [(''y'', JObject [(''z'', JNumber ''1'')])])],
            mem_modules = Map.empty\<rparr>\<rparr>)"
proof -
  have st: "store empty_server = empty_mem" by (simp add: empty_server_def)
  have tr: "Trim ''x/y/z'' = ''x/y/z''" by (simp add: Trim_def)
  have pp: "ParsePath mem_Storage (''/'' @ Trim ''x/y/z'') = Some [''x'', ''y'', ''z'']"
    by (simp add: tr mem_reads mem_ParsePath_def)
  have m3: "missing mem_Storage (store empty_server) [''x'', ''y'', ''z'']"
    by (simp add: missing_def mem_reads st empty_mem_def not_found_def)
  have m0: "\<not> missing mem_Storage (store empty_server) (take 0 [''x'', ''y'', ''z''])"
    by (simp add: missing_def mem_reads st empty_mem_def)
  have mj: "\<forall>j. 0 < j \<and> j < length [''x'', ''y'', ''z''] \<longrightarrow>
      missing mem_Storage (store empty_server) (take j [''x'', ''y'', ''z''])"
  proof (intro allI impI)
    fix j :: nat
    assume "0 < j \<and> j < length [''x'', ''y'', ''z'']"
    then have "j = 1 \<or> j = 2" by auto
    then show "missing mem_Storage (store empty_server) (take j [''x'', ''y'', ''z''])"
      by (auto simp: missing_def mem_reads st empty_mem_def not_found_def)
  qed
  have nc: "GetRulesForVirtualDocument two_module_Ast (compiler empty_server) r = None" for r
    by (simp add: two_module_Ast_def empty_server_def)
  have up: "[Suc 0..<length [''x'', ''y'', ''z'']] = [1, 2]"
    by (simp add: upt_rec)
  note main = put_creates_missing_ancestors[where S = mem_Storage and srv = empty_server
      and pathVar = "''x/y/z''" and p = "[''x'', ''y'', ''z'']" and k = 0
      and v = "JNumber ''1''" and ifNoneMatch = "''''" and A = two_module_Ast and q = "[]"
      and ?'b = unit, OF mem_reads(2) pp m3 _ m0 mj]
  have "(v1DataPut mem_Storage two_module_Ast empty_server ''x/y/z'' (Inr (JNumber ''1'')) ''''
        :: unit response outcome \<times> _)
      = (Returned (Bytes 204 None),
          empty_server\<lparr>store := \<lparr>mem_data =
              JObject [(''x'', JObject [(''y'', JObject [(''z'', JNumber ''1'')])])],
            mem_modules = Map.empty\<rparr>\<rparr>)"
    using main
    by (simp add: up mem_reads st empty_mem_def writeConflict_def nc mem_Write_def put_write_def
        handleResponse_def)
  with m3 m0 show ?thesis by (intro conjI)
qed

section \<open>The write-conflict check\<close>

lemma writeConflict_virtual:
  "GetRulesForVirtualDocument A (compiler srv)
     (PathRef S (if op = AddOp \<and> p \<noteq> [] \<and> last p = ''-'' then butlast p else p)) = Some rs \<Longrightarrow>
   writeConflict S A srv op p =
     Some (WriteConflictError (if op = AddOp \<and> p \<noteq> [] \<and> last p = ''-'' then butlast p else p))"
  by (simp add: writeConflict_def Let_def)

lemma prepare_op_checked:
  "prepare_op S A srv root patch = Inr (patchImpl p op v) \<Longrightarrow> writeConflict S A srv op p = None"
  by (auto simp: prepare_op_def Let_def split: patchV1.splits option.splits)

text \<open>
  Claim C4, at the input where the code departs from it. The compiler has a rule that
  defines the document at \<^verbatim>\<open>/a\<close>, so the write-conflict check refuses an add at
  \<^verbatim>\<open>/a\<close>; but \<^verbatim>\<open>v1DataPut\<close> does not run the check on its target path: the PUT of \<^verbatim>\<open>1\<close>
  at \<^verbatim>\<open>/a\<close> is answered with 204 and the store holds the written value.
\<close>

theorem put_writes_through_virtual_document:
  "writeConflict mem_Storage two_module_Ast virtual_a_server AddOp [''a'']
     = Some (WriteConflictError [''a''])
   \<and> (v1DataPut mem_Storage two_module_Ast virtual_a_server ''a'' (Inr (JNumber ''1'')) ''''
        :: unit response outcome \<times> _)
      = (Returned (Bytes 204 None),
          virtual_a_server\<lparr>store := \<lparr>mem_data = JObject [(''a'', JNumber ''1'')],
            mem_modules = [''p'' \<mapsto> [[''a'']]]\<rparr>\<rparr>)"
proof -
  have tr: "Trim ''a'' = ''a''" by (simp add: Trim_def)
  have pp: "mem_ParsePath ''/a'' = Some [''a'']" by (simp add: mem_ParsePath_def)
  have rules: "GetRulesForVirtualDocument two_module_Ast (compiler virtual_a_server)
      [DefaultRootDocument, StringTerm ''a''] = Some [[''a'']]"
    by (simp add: two_module_Ast_def virtual_a_server_def mem_reads)
  have st: "store virtual_a_server = \<lparr>mem_data = JObject [], mem_modules = [''p'' \<mapsto> [[''a'']]]\<rparr>"
    by (simp add: virtual_a_server_def)
  show ?thesis
    by (simp add: v1DataPut_def makeDir.simps mem_reads tr pp not_found_def
        writeConflict_def rules st put_write_def mem_Write_def handleResponse_def)
qed

section \<open>The verdict of a Validate request\<close>

lemma bestMatch_loop_well_formed:
  "those (map entry_fields vals) = Some es \<Longrightarrow>
   bestMatch_loop vals best = Returned (best_of es best)"
proof (induction vals arbitrary: es best)
  case Nil
  then show ?case by simp
next
  case (Cons val vals)
  then obtain e es' where e: "entry_fields val = Some e" and es': "those (map entry_fields vals) = Some es'"
    and es: "es = e # es'"
    by (auto split: option.splits)
  obtain p t d where ptd: "e = (p, t, d)" by (cases e)
  obtain d0 t0 p0 where best: "best = ValidateMatch d0 t0 p0" by (cases best)
  from e ptd obtain entry n where val: "val = JObject entry"
    and f: "map_of entry ''priority'' = Some (JNumber n)" "p = fst (ParseInt n)"
       "map_of entry ''action_type'' = Some (JString t)"
       "map_of entry ''action_data'' = Some (JString d)"
    by (cases val) (auto split: option.splits json.splits)
  show ?case
    using Cons.IH[OF es'] by (simp add: val f es ptd best Let_def)
qed

lemma best_of_not_greater:
  "\<forall>e\<in>set es. fst e \<le> p0 \<Longrightarrow> best_of es (ValidateMatch d0 t0 p0) = ValidateMatch d0 t0 p0"
  by (induction es) auto

lemma find_SomeD: "find P xs = Some x \<Longrightarrow> P x \<and> x \<in> set xs"
  by (induction xs) (auto split: if_splits)

lemma find_greatest_Cons:
  fixes e :: "int \<times> string \<times> string"
  assumes "\<exists>e'\<in>set es. fst e' > fst e"
  shows "find (\<lambda>x. \<forall>e'\<in>set (e # es). fst e' \<le> fst x) (e # es) =
         find (\<lambda>x. \<forall>e'\<in>set es. fst e' \<le> fst x) es"
proof -
  from assms have "\<not> (\<forall>e'\<in>set (e # es). fst e' \<le> fst e)" by force
  then have "find (\<lambda>x. \<forall>e'\<in>set (e # es). fst e' \<le> fst x) (e # es) =
      find (\<lambda>x. \<forall>e'\<in>set (e # es). fst e' \<le> fst x) es"
    by (simp only: find.simps if_False)
  also have "\<dots> = find (\<lambda>x. \<forall>e'\<in>set es. fst e' \<le> fst x) es"
  proof (rule find_cong[OF refl])
    fix x assume "x \<in> set es"
    show "(\<forall>e'\<in>set (e # es). fst e' \<le> fst x) = (\<forall>e'\<in>set es. fst e' \<le> fst x)"
      using assms by force
  qed
  finally show ?thesis .
qed

lemma best_of_greatest:
  "\<exists>e\<in>set es. fst e > p0 \<Longrightarrow>
   \<exists>p t d. find (\<lambda>e. \<forall>e'\<in>set es. fst e' \<le> fst e) es = Some (p, t, d) \<and>
     best_of es (ValidateMatch d0 t0 p0) = ValidateMatch d t p"
proof (induction es arbitrary: d0 t0 p0)
  case Nil
  then show ?case by simp
next
  case (Cons e es)
  obtain p t d where e: "e = (p, t, d)" by (cases e)
  show ?case
  proof (cases "p > p0")
    case True
    show ?thesis
    proof (cases "\<exists>e'\<in>set es. fst e' > p")
      case greater: True
      from Cons.IH[OF greater, of d t] obtain p' t' d' where
        *: "find (\<lambda>e. \<forall>e'\<in>set es. fst e' \<le> fst e) es = Some (p', t', d')"
           "best_of es (ValidateMatch d t p) = ValidateMatch d' t' p'"
        by blast
      have "find (\<lambda>x. \<forall>e'\<in>set (e # es). fst e' \<le> fst x) (e # es) = Some (p', t', d')"
        using find_greatest_Cons[of es e] greater *(1) by (simp add: e)
      then show ?thesis using * True by (simp add: e)
    next
      case False
      then have "\<forall>e'\<in>set es. fst e' \<le> p" by force
      then show ?thesis using True best_of_not_greater[of es p d t] by (simp add: e)
    qed
  next
    case False
    with Cons.prems have ex: "\<exists>e'\<in>set es. fst e' > p0" by (auto simp: e)
    from Cons.IH[OF ex, of d0 t0] obtain p' t' d' where
        *: "find (\<lambda>e. \<forall>e'\<in>set es. fst e' \<le> fst e) es = Some (p', t', d')"
           "best_of es (ValidateMatch d0 t0 p0) = ValidateMatch d' t' p'"
      by blast
    from ex False have "\<exists>e'\<in>set es. fst e' > fst e" by (force simp: e)
    then have "find (\<lambda>x. \<forall>e'\<in>set (e # es). fst e' \<le> fst x) (e # es) = Some (p', t', d')"
      using find_greatest_Cons[of es e] *(1) by simp
    then show ?thesis using * False by (simp add: e)
  qed
qed

text \<open>
  On well-formed entries of which one has a positive priority, the verdict comes from
  the first entry, in iteration order, whose priority is the greatest.
\<close>

lemma validate_result_positive:
  assumes "map_of kvs ''match'' = Some (JObject matches)"
    and "those (map entry_fields (map snd matches)) = Some es"
    and "\<exists>e\<in>set es. fst e > 0"
  shows "\<exists>p t d. find (\<lambda>e. \<forall>e'\<in>set es. fst e' \<le> fst e) es = Some (p, t, d) \<and>
     validate_result (JObject kvs) =
       Returned (if t = ''action_block'' then Response DENY []
                 else if t = ''action_redirect'' then Response DENY [Attribute ''redirect_to'' d]
                 else Response PERMIT [])"
proof -
  from best_of_greatest[OF assms(3), of "[]" "[]"] obtain p t d where
    *: "find (\<lambda>e. \<forall>e'\<in>set es. fst e' \<le> fst e) es = Some (p, t, d)"
       "best_of es (ValidateMatch [] [] 0) = ValidateMatch d t p"
    by blast
  have "validate_result (JObject kvs) =
       Returned (if t = ''action_block'' then Response DENY []
                 else if t = ''action_redirect'' then Response DENY [Attribute ''redirect_to'' d]
                 else Response PERMIT [])"
    by (simp add: validate_result_def assms(1) bestMatch_loop_well_formed[OF assms(2)] *(2))
  with *(1) show ?thesis by blast
qed

lemma ParseInt_0: "ParseInt ''0'' = (0, True)"
  by (simp add: ParseInt_def digit_def)

text \<open>
  Claim C2, at the input where the code departs from it. The evaluation is ground and
  succeeds with a \<^verbatim>\<open>match\<close> object of one entry, of priority 0 and action type
  \<^verbatim>\<open>action_block\<close>. That entry has the greatest priority, so the claim gives DENY; the
  loop starts from a best match of priority 0 and takes an entry only when its priority
  is greater, so the entry is never taken and the verdict is PERMIT.
\<close>

theorem validate_priority_zero:
  "grpcDataGet mem_Storage
     (answering (JObject [(''match'', JObject [(''RULE_1'',
        JObject [(''action_data'', JString ''''), (''action_type'', JString ''action_block''),
                 (''priority'', JNumber ''0'')])])]))
     empty_server [Attribute ''customer_id'' ''c1'']
   = Returned (Response PERMIT [], None)"
  by (simp add: grpcDataGet_def Let_def answering_def mem_reads validate_result_def ParseInt_0)

text \<open>
  Claim C3, at the input where the code departs from it. The evaluation is ground and
  succeeds with a result object that has no \<^verbatim>\<open>match\<close> key: the type assertion on the
  missing value panics, and no verdict is returned. With an empty \<^verbatim>\<open>match\<close> object the
  verdict is PERMIT, as the claim says.
\<close>

theorem validate_without_match:
  "grpcDataGet mem_Storage (answering (JObject [])) empty_server [Attribute ''customer_id'' ''c1'']
     = Panicked
   \<and> grpcDataGet mem_Storage (answering (JObject [(''match'', JObject [])])) empty_server
       [Attribute ''customer_id'' ''c1'']
     = Returned (Response PERMIT [], None)"
  by (simp add: grpcDataGet_def Let_def answering_def mem_reads validate_result_def)

section \<open>Conflicts of the request builder\<close>

lemma build_from_append:
  "build_from (ps @ qs) res =
     (case build_from ps res of Inl err \<Rightarrow> Inl err | Inr res' \<Rightarrow> build_from qs res')"
  by (induction ps arbitrary: res) (auto split: sum.splits)

lemma build_from_conflict:
  "build_from pairs res = Inl (ConflictError msg) \<Longrightarrow>
   \<exists>ps pair rest res'. pairs = ps @ pair # rest \<and> build_from ps res = Inr res' \<and>
      build_pair pair res' = Inl (ConflictError msg)"
proof (induction pairs arbitrary: res)
  case Nil
  then show ?case by simp
next
  case (Cons pair pairs)
  show ?case
  proof (cases "build_pair pair res")
    case (Inl err)
    with Cons.prems have "build_pair pair res = Inl (ConflictError msg)" by simp
    then have "pair # pairs = [] @ pair # pairs \<and> build_from [] res = Inr res \<and>
        build_pair pair res = Inl (ConflictError msg)"
      by simp
    then show ?thesis by blast
  next
    case (Inr res1)
    with Cons.prems have "build_from pairs res1 = Inl (ConflictError msg)" by simp
    from Cons.IH[OF this] obtain ps p rest res' where
      *: "pairs = ps @ p # rest" "build_from ps res1 = Inr res'"
         "build_pair p res' = Inl (ConflictError msg)"
      by blast
    then have "pair # pairs = (pair # ps) @ p # rest \<and> build_from (pair # ps) res = Inr res' \<and>
        build_pair p res' = Inl (ConflictError msg)"
      using Inr by simp
    then show ?thesis by blast
  qed
qed

lemma build_pair_conflict:
  "build_pair (r, v) res = Inl (ConflictError msg) \<Longrightarrow>
   \<exists>keys. ref_keys r = Inr keys \<and>
     (msg = ''conflicting request values: check request parameters'' \<or>
      keys \<noteq> [] \<and>
      msg = ''conflicting request value request.'' @ dotted keys @ '': check request parameters'')"
  by (auto simp: build_pair_def conflict_value_def conflict_values_def ref_keys_def
      split: sum.splits option.splits if_splits list.splits)

lemma build_pair_occupied:
  "ref_keys r = Inr keys \<Longrightarrow> keys \<noteq> [] \<Longrightarrow>
   (\<forall>old. res = Some old \<longrightarrow> is_object old) \<Longrightarrow> place keys v res = None \<Longrightarrow>
   build_pair (r, v) res = Inl (conflict_value keys)"
  by (auto simp: build_pair_def split: option.splits)

text \<open>
  Claim C7. When the builder fails with a ConflictError, the pairs before some pair were
  accepted and that later pair raised the error against the document they built; the
  message is exactly \<^verbatim>\<open>conflicting request value request.<dotted-path>: check request
  parameters\<close> with the dotted keys of that pair's ref, or exactly \<^verbatim>\<open>conflicting request
  values: check request parameters\<close>. A pair with keys whose slot or way to the slot is
  occupied incompatibly raises the first message; a pair that conflicts with the whole
  document raises the second. The pairs \<^verbatim>\<open>a.b = "c"\<close>, \<^verbatim>\<open>a.b.d = "d"\<close> fail with
  \<^verbatim>\<open>conflicting request value request.a.b.d: check request parameters\<close>.
\<close>

theorem request_conflict_message:
  "(build pairs = Inl (ConflictError msg) \<longrightarrow>
      (\<exists>ps r v rest res keys.
          pairs = ps @ (r, v) # rest \<and> build ps = Inr res \<and>
          build_pair (r, v) res = Inl (ConflictError msg) \<and> ref_keys r = Inr keys \<and>
          (msg = ''conflicting request values: check request parameters'' \<or>
           keys \<noteq> [] \<and>
           msg = ''conflicting request value request.'' @ dotted keys
                 @ '': check request parameters'')))
   \<and> (build ps_a = Inr res_a \<and> ref_keys r_a = Inr keys_a \<and> keys_a \<noteq> [] \<and>
       (\<forall>old. res_a = Some old \<longrightarrow> is_object old) \<and> place keys_a v_a res_a = None \<longrightarrow>
         build (ps_a @ (r_a, v_a) # rest_a) =
           Inl (ConflictError (''conflicting request value request.'' @ dotted keys_a
                               @ '': check request parameters'')))
   \<and> (build ps_b = Inr res_b \<and> ref_keys r_b = Inr keys_b \<and>
       (keys_b = [] \<and> place [] v_b res_b = None \<or>
        keys_b \<noteq> [] \<and> (\<exists>old. res_b = Some old \<and> \<not> is_object old)) \<longrightarrow>
         build (ps_b @ (r_b, v_b) # rest_b) =
           Inl (ConflictError ''conflicting request values: check request parameters''))
   \<and> build [([VVar ''request'', VString ''a'', VString ''b''], VString ''c''),
             ([VVar ''request'', VString ''a'', VString ''b'', VString ''d''], VString ''d'')]
       = Inl (ConflictError ''conflicting request value request.a.b.d: check request parameters'')"
proof -
  have a: "build pairs = Inl (ConflictError msg) \<longrightarrow>
      (\<exists>ps r v rest res keys.
          pairs = ps @ (r, v) # rest \<and> build ps = Inr res \<and>
          build_pair (r, v) res = Inl (ConflictError msg) \<and> ref_keys r = Inr keys \<and>
          (msg = ''conflicting request values: check request parameters'' \<or>
           keys \<noteq> [] \<and>
           msg = ''conflicting request value request.'' @ dotted keys
                 @ '': check request parameters''))"
  proof
    assume "build pairs = Inl (ConflictError msg)"
    then obtain ps pair rest res where
      *: "pairs = ps @ pair # rest" "build_from ps None = Inr res"
         "build_pair pair res = Inl (ConflictError msg)"
      unfolding build_def using build_from_conflict by blast
    obtain r v where pair: "pair = (r, v)" by (cases pair)
    from build_pair_conflict[OF *(3)[unfolded pair]] obtain keys where
      "ref_keys r = Inr keys"
      "msg = ''conflicting request values: check request parameters'' \<or>
       keys \<noteq> [] \<and>
       msg = ''conflicting request value request.'' @ dotted keys @ '': check request parameters''"
      by blast
    with * pair show "\<exists>ps r v rest res keys.
          pairs = ps @ (r, v) # rest \<and> build ps = Inr res \<and>
          build_pair (r, v) res = Inl (ConflictError msg) \<and> ref_keys r = Inr keys \<and>
          (msg = ''conflicting request values: check request parameters'' \<or>
           keys \<noteq> [] \<and>
           msg = ''conflicting request value request.'' @ dotted keys
                 @ '': check request parameters'')"
      unfolding build_def by blast
  qed
  have b: "build ps_a = Inr res_a \<and> ref_keys r_a = Inr keys_a \<and> keys_a \<noteq> [] \<and>
       (\<forall>old. res_a = Some old \<longrightarrow> is_object old) \<and> place keys_a v_a res_a = None \<longrightarrow>
         build (ps_a @ (r_a, v_a) # rest_a) =
           Inl (ConflictError (''conflicting request value request.'' @ dotted keys_a
                               @ '': check request parameters''))"
    using build_pair_occupied[of r_a keys_a res_a v_a]
    by (auto simp: build_def build_from_append conflict_value_def)
  have c: "build ps_b = Inr res_b \<and> ref_keys r_b = Inr keys_b \<and>
       (keys_b = [] \<and> place [] v_b res_b = None \<or>
        keys_b \<noteq> [] \<and> (\<exists>old. res_b = Some old \<and> \<not> is_object old)) \<longrightarrow>
         build (ps_b @ (r_b, v_b) # rest_b) =
           Inl (ConflictError ''conflicting request values: check request parameters'')"
    by (auto simp: build_def build_from_append build_pair_def conflict_values_def)
  have d: "build [([VVar ''request'', VString ''a'', VString ''b''], VString ''c''),
             ([VVar ''request'', VString ''a'', VString ''b'', VString ''d''], VString ''d'')]
       = Inl (ConflictError ''conflicting request value request.a.b.d: check request parameters'')"
    by (simp add: build_def build_pair_def ref_keys_def conflict_value_def)
  from a b c d show ?thesis by (intro conjI)
qed

theorem request_conflict_message_witness:
  "build [([VVar ''request'', VString ''a''], VNumber 100),
          ([VVar ''request'', VString ''a'', VString ''b''], VString ''c'')]
     = Inl (ConflictError ''conflicting request value request.a.b: check request parameters'')
   \<and> (\<exists>ps r v rest res keys.
          [([VVar ''request'', VString ''a''], VNumber 100),
           ([VVar ''request'', VString ''a'', VString ''b''], VString ''c'')] = ps @ (r, v) # rest \<and>
          build ps = Inr res \<and>
          build_pair (r, v) res
            = Inl (ConflictError ''conflicting request value request.a.b: check request parameters'') \<and>
          ref_keys r = Inr keys \<and>
          (''conflicting request value request.a.b: check request parameters''
             = ''conflicting request values: check request parameters'' \<or>
           keys \<noteq> [] \<and>
           ''conflicting request value request.a.b: check request parameters''
             = ''conflicting request value request.'' @ dotted keys @ '': check request parameters''))
   \<and> build [([VVar ''request'', VString ''a'', VString ''b''], VString ''c'')]
       = Inr (Some (VObject [(''a'', VObject [(''b'', VString ''c'')])]))
   \<and> place [''a''] (VNumber 100) (Some (VObject [(''a'', VObject [(''b'', VString ''c'')])])) = None
   \<and> build ([([VVar ''request'', VString ''a'', VString ''b''], VString ''c'')]
             @ ([VVar ''request'', VString ''a''], VNumber 100) # [])
       = Inl (ConflictError (''conflicting request value request.'' @ dotted [''a'']
                             @ '': check request parameters''))
   \<and> build [([], VArray [VNumber 1, VNumber 2, VNumber 3])]
       = Inr (Some (VArray [VNumber 1, VNumber 2, VNumber 3]))
   \<and> build ([([], VArray [VNumber 1, VNumber 2, VNumber 3])]
             @ ([VVar ''request'', VString ''a'', VString ''b''], VBoolean True) # [])
       = Inl (ConflictError ''conflicting request values: check request parameters'')"
proof -
  have e: "build [([VVar ''request'', VString ''a''], VNumber 100),
          ([VVar ''request'', VString ''a'', VString ''b''], VString ''c'')]
     = Inl (ConflictError ''conflicting request value request.a.b: check request parameters'')"
    by (simp add: build_def build_pair_def ref_keys_def conflict_value_def)
  have b1: "build [([VVar ''request'', VString ''a'', VString ''b''], VString ''c'')]
       = Inr (Some (VObject [(''a'', VObject [(''b'', VString ''c'')])]))"
    by (simp add: build_def build_pair_def ref_keys_def)
  have k1: "ref_keys [VVar ''request'', VString ''a''] = Inr [''a'']"
    by (simp add: ref_keys_def)
  have p1: "place [''a''] (VNumber 100) (Some (VObject [(''a'', VObject [(''b'', VString ''c'')])])) = None"
    by simp
  have b2: "build [([], VArray [VNumber 1, VNumber 2, VNumber 3])]
       = Inr (Some (VArray [VNumber 1, VNumber 2, VNumber 3]))"
    by (simp add: build_def build_pair_def ref_keys_def)
  have k2: "ref_keys [VVar ''request'', VString ''a'', VString ''b''] = Inr [''a'', ''b'']"
    by (simp add: ref_keys_def)
  note main = request_conflict_message[where
      pairs = "[([VVar ''request'', VString ''a''], VNumber 100),
        ([VVar ''request'', VString ''a'', VString ''b''], VString ''c'')]"
      and msg = "''conflicting request value request.a.b: check request parameters''"
      and ps_a = "[([VVar ''request'', VString ''a'', VString ''b''], VString ''c'')]"
      and res_a = "Some (VObject [(''a'', VObject [(''b'', VString ''c'')])])"
      and r_a = "[VVar ''request'', VString ''a'']" and keys_a = "[''a'']"
      and v_a = "VNumber 100" and rest_a = "[]"
      and ps_b = "[([], VArray [VNumber 1, VNumber 2, VNumber 3])]"
      and res_b = "Some (VArray [VNumber 1, VNumber 2, VNumber 3])"
      and r_b = "[VVar ''request'', VString ''a'', VString ''b'']" and keys_b = "[''a'', ''b'']"
      and v_b = "VBoolean True" and rest_b = "[]"]
  from main e have c1: "\<exists>ps r v rest res keys.
          [([VVar ''request'', VString ''a''], VNumber 100),
           ([VVar ''request'', VString ''a'', VString ''b''], VString ''c'')] = ps @ (r, v) # rest \<and>
          build ps = Inr res \<and>
          build_pair (r, v) res
            = Inl (ConflictError ''conflicting request value request.a.b: check request parameters'') \<and>
          ref_keys r = Inr keys \<and>
          (''conflicting request value request.a.b: check request parameters''
             = ''conflicting request values: check request parameters'' \<or>
           keys \<noteq> [] \<and>
           ''conflicting request value request.a.b: check request parameters''
             = ''conflicting request value request.'' @ dotted keys @ '': check request parameters'')"
    by blast
  from main b1 k1 p1 have c2: "build ([([VVar ''request'', VString ''a'', VString ''b''], VString ''c'')]
             @ ([VVar ''request'', VString ''a''], VNumber 100) # [])
       = Inl (ConflictError (''conflicting request value request.'' @ dotted [''a'']
                             @ '': check request parameters''))"
    by simp
  from main b2 k2 have c3: "build ([([], VArray [VNumber 1, VNumber 2, VNumber 3])]
             @ ([VVar ''request'', VString ''a'', VString ''b''], VBoolean True) # [])
       = Inl (ConflictError ''conflicting request values: check request parameters'')"
    by simp
  from e c1 b1 p1 c2 b2 c3 show ?thesis by (intro conjI)
qed

section \<open>Parsing the request parameters\<close>

lemma parseRequest_loop_stops_error:
  "list_all (\<lambda>x. \<exists>kv. parseRequest_item T x = Returned (Inr kv)) pre \<Longrightarrow>
   parseRequest_item T item = Returned (Inl err) \<Longrightarrow>
   parseRequest_loop T (pre @ item # post) pairs nonGround = Returned (Inl err)"
  by (induction pre arbitrary: pairs nonGround) auto

lemma parseRequest_loop_stops_panic:
  "list_all (\<lambda>x. \<exists>kv. parseRequest_item T x = Returned (Inr kv)) pre \<Longrightarrow>
   parseRequest_item T item = Panicked \<Longrightarrow>
   parseRequest_loop T (pre @ item # post) pairs nonGround = Panicked"
  by (induction pre arbitrary: pairs nonGround) auto

lemma parseRequest_stops_error:
  "list_all (\<lambda>x. \<exists>kv. parseRequest_item T x = Returned (Inr kv)) pre \<Longrightarrow>
   parseRequest_item T item = Returned (Inl err) \<Longrightarrow>
   parseRequest T (pre @ item # post) = Returned (Inl err)"
  by (simp add: parseRequest_def parseRequest_loop_stops_error)

lemma parseRequest_stops_panic:
  "list_all (\<lambda>x. \<exists>kv. parseRequest_item T x = Returned (Inr kv)) pre \<Longrightarrow>
   parseRequest_item T item = Panicked \<Longrightarrow>
   parseRequest T (pre @ item # post) = Panicked"
  by (simp add: parseRequest_def parseRequest_loop_stops_panic)

lemma parseRequest_item_nonempty:
  "item \<noteq> [] \<Longrightarrow> parseRequest_item T item \<noteq> Panicked"
  by (auto simp: parseRequest_item_def split: list.splits sum.splits option.splits)

lemma parseRequest_loop_nonempty:
  "list_all (\<lambda>x. x \<noteq> []) s \<Longrightarrow> parseRequest_loop T s pairs nonGround \<noteq> Panicked"
  by (induction s arbitrary: pairs nonGround)
     (auto simp: parseRequest_item_nonempty split: outcome.splits sum.splits)

lemma parseRequest_nonempty:
  "list_all (\<lambda>x. x \<noteq> []) s \<Longrightarrow> parseRequest T s \<noteq> Panicked"
  using parseRequest_loop_nonempty[of s T "[]" False]
  by (auto simp: parseRequest_def split: outcome.splits sum.splits)

lemma SplitN2_parts:
  "SplitN2 item = Some (a, b) \<Longrightarrow> item = a @ '':'' @ b \<and> CHR '':'' \<notin> set a"
proof -
  assume "SplitN2 item = Some (a, b)"
  then have in_item: "CHR '':'' \<in> set item"
    and a: "a = takeWhile (\<lambda>c. c \<noteq> CHR '':'') item"
    and b: "b = tl (dropWhile (\<lambda>c. c \<noteq> CHR '':'') item)"
    by (auto simp: SplitN2_def split: if_splits)
  from in_item have ne: "dropWhile (\<lambda>c. c \<noteq> CHR '':'') item \<noteq> []"
    by (simp add: dropWhile_eq_Nil_conv)
  then have "hd (dropWhile (\<lambda>c. c \<noteq> CHR '':'') item) = CHR '':''"
    using hd_dropWhile[of "\<lambda>c. c \<noteq> CHR '':''" item] by simp
  with ne have "dropWhile (\<lambda>c. c \<noteq> CHR '':'') item = CHR '':'' # b"
    unfolding b by (cases "dropWhile (\<lambda>c. c \<noteq> CHR '':'') item") auto
  then have "item = a @ '':'' @ b"
    unfolding a using takeWhile_dropWhile_id[of "\<lambda>c. c \<noteq> CHR '':''" item] by simp
  moreover have "CHR '':'' \<notin> set a"
    unfolding a by (auto dest: set_takeWhileD)
  ultimately show ?thesis by simp
qed

text \<open>
  Claim C8, as amended. An item that is not empty and does not start with a colon is
  taken as a whole value with the empty path exactly when the whole item parses as a
  term. Otherwise it is cut at its first colon: with no colon, or when \<^verbatim>\<open>request.\<close>
  followed by the part before the colon does not parse, the error is the
  request-parameter-format error; when the part after the colon does not parse, the
  error is the parser's own; otherwise the pair is that path and that value. The first
  item of the list that fails ends \<^verbatim>\<open>v1DataGet\<close> with status 400 and that error.
\<close>

theorem request_item_split:
  assumes "item \<noteq> []" and "hd item \<noteq> CHR '':''"
  shows "(\<forall>v. ParseTerm T item = Inr v \<longrightarrow>
            parseRequest_item T item = Returned (Inr (EmptyRef T, v)))
     \<and> (\<forall>err0. ParseTerm T item = Inl err0 \<longrightarrow>
          (SplitN2 item = None \<longrightarrow>
             parseRequest_item T item = Returned (Inl errRequestPathFormat)) \<and>
          (\<forall>a b. SplitN2 item = Some (a, b) \<longrightarrow>
             item = a @ '':'' @ b \<and> CHR '':'' \<notin> set a \<and>
             (\<forall>err1. ParseTerm T (''request.'' @ a) = Inl err1 \<longrightarrow>
                parseRequest_item T item = Returned (Inl errRequestPathFormat)) \<and>
             (\<forall>k. ParseTerm T (''request.'' @ a) = Inr k \<longrightarrow>
                (\<forall>err. ParseTerm T b = Inl err \<longrightarrow>
                   parseRequest_item T item = Returned (Inl err)) \<and>
                (\<forall>v. ParseTerm T b = Inr v \<longrightarrow>
                   parseRequest_item T item = Returned (Inr (k, v))))))
     \<and> (list_all (\<lambda>x. \<exists>kv. parseRequest_item T x = Returned (Inr kv)) pre \<and>
        parseRequest_item T item = Returned (Inl err') \<longrightarrow>
          v1DataGet S T Q srv pathVar explain (pre @ item # post) =
            Returned (handleError 400 err'))"
proof -
  obtain c cs where item: "item = c # cs" and c: "c \<noteq> CHR '':''"
    using assms by (cases item) auto
  have whole: "\<forall>v. ParseTerm T item = Inr v \<longrightarrow>
            parseRequest_item T item = Returned (Inr (EmptyRef T, v))"
    using c by (simp add: parseRequest_item_def item)
  have split: "\<forall>err0. ParseTerm T item = Inl err0 \<longrightarrow>
          (SplitN2 item = None \<longrightarrow>
             parseRequest_item T item = Returned (Inl errRequestPathFormat)) \<and>
          (\<forall>a b. SplitN2 item = Some (a, b) \<longrightarrow>
             item = a @ '':'' @ b \<and> CHR '':'' \<notin> set a \<and>
             (\<forall>err1. ParseTerm T (''request.'' @ a) = Inl err1 \<longrightarrow>
                parseRequest_item T item = Returned (Inl errRequestPathFormat)) \<and>
             (\<forall>k. ParseTerm T (''request.'' @ a) = Inr k \<longrightarrow>
                (\<forall>err. ParseTerm T b = Inl err \<longrightarrow>
                   parseRequest_item T item = Returned (Inl err)) \<and>
                (\<forall>v. ParseTerm T b = Inr v \<longrightarrow>
                   parseRequest_item T item = Returned (Inr (k, v)))))"
    using c SplitN2_parts[of item]
    by (auto simp: parseRequest_item_def item)
  have resp: "list_all (\<lambda>x. \<exists>kv. parseRequest_item T x = Returned (Inr kv)) pre \<and>
        parseRequest_item T item = Returned (Inl err') \<longrightarrow>
          v1DataGet S T Q srv pathVar explain (pre @ item # post) =
            Returned (handleError 400 err')"
    by (auto simp: v1DataGet_def Let_def parseRequest_stops_error)
  from whole split resp show ?thesis by (intro conjI)
qed

lemmas fragment_simps =
  fragment_ParseTerm_def is_name_def is_letter_def digit_def ParseInt_def Let_def SplitN2_def

lemma fragment_Terms_simps:
  "ParseTerm fragment_Terms = fragment_ParseTerm"
  "EmptyRef fragment_Terms = VRef []"
  "WalkVars fragment_Terms = vars_of"
  by (simp_all add: fragment_Terms_def)

lemma fragment_parses:
  "fragment_ParseTerm ''x'' = Inr (VVar ''x'')"
  "fragment_ParseTerm ''1'' = Inr (VNumber 1)"
  "fragment_ParseTerm ''request.x'' = Inr (VRef [VVar ''request'', VString ''x''])"
  "fragment_ParseTerm ''x:1'' = Inl (OtherError ''no match found'')"
  "fragment_ParseTerm ''x:}'' = Inl (OtherError ''no match found'')"
  "fragment_ParseTerm ''}'' = Inl (OtherError ''no match found'')"
  "fragment_ParseTerm [CHR 0x22, CHR ''a'', CHR 0x22] = Inr (VString ''a'')"
  by (simp_all add: fragment_simps)

lemma fragment_splits:
  "SplitN2 ''x:1'' = Some (''x'', ''1'')"
  "SplitN2 ''x:}'' = Some (''x'', ''}'')"
  "SplitN2 ''}'' = None"
  by (simp_all add: SplitN2_def)

text \<open>
  The claim as stated fails on the item \<^verbatim>\<open>x:1\<close>: the part before the first colon
  parses as a complete term, and yet the item is taken as the path \<^verbatim>\<open>request.x\<close> with
  the value \<^verbatim>\<open>1\<close>. It fails on \<^verbatim>\<open>x:}\<close> too: the value does not parse, and the 400
  response carries the parser's error, not the format message.
\<close>

theorem request_item_split_counterexample:
  "fragment_ParseTerm ''x'' = Inr (VVar ''x'')
   \<and> parseRequest_item fragment_Terms ''x:1''
       = Returned (Inr (VRef [VVar ''request'', VString ''x''], VNumber 1))
   \<and> parseRequest_item fragment_Terms ''x:}'' = Returned (Inl (OtherError ''no match found''))
   \<and> (v1DataGet mem_Storage fragment_Terms (answering JNull) empty_server ''a'' [] [''x:}'']
       :: unit dataBody response outcome)
       = Returned (ErrorV1 400 (ErrorText (OtherError ''no match found'')))"
  by (simp add: parseRequest_item_def fragment_Terms_simps fragment_parses fragment_splits
      v1DataGet_def Let_def parseRequest_def handleError_def)

theorem request_item_split_witness:
  "''x:1'' \<noteq> [] \<and> hd ''x:1'' \<noteq> CHR '':''
   \<and> ParseTerm fragment_Terms ''x:1'' = Inl (OtherError ''no match found'')
   \<and> SplitN2 ''x:1'' = Some (''x'', ''1'')
   \<and> parseRequest_item fragment_Terms ''x:1''
       = Returned (Inr (VRef [VVar ''request'', VString ''x''], VNumber 1))
   \<and> ParseTerm fragment_Terms ''1'' = Inr (VNumber 1)
   \<and> parseRequest_item fragment_Terms ''1'' = Returned (Inr (EmptyRef fragment_Terms, VNumber 1))
   \<and> parseRequest_item fragment_Terms ''}'' = Returned (Inl errRequestPathFormat)
   \<and> (v1DataGet mem_Storage fragment_Terms (answering JNull) empty_server ''a'' [] ([''1''] @ ''}'' # [])
       :: unit dataBody response outcome)
       = Returned (handleError 400 errRequestPathFormat)"
proof -
  have h1: "''x:1'' \<noteq> []" "hd ''x:1'' \<noteq> CHR '':''" by simp_all
  have h2: "''1'' \<noteq> []" "hd ''1'' \<noteq> CHR '':''" by simp_all
  have h3: "''}'' \<noteq> []" "hd ''}'' \<noteq> CHR '':''" by simp_all
  note a = request_item_split[OF h1, where T = fragment_Terms]
  note b = request_item_split[OF h2, where T = fragment_Terms]
  note c = request_item_split[OF h3, where T = fragment_Terms and pre = "[''1'']"
      and post = "[]" and S = mem_Storage and Q = "answering JNull" and srv = empty_server
      and pathVar = "''a''" and explain = "[]" and err' = errRequestPathFormat]
  have p1: "ParseTerm fragment_Terms ''x:1'' = Inl (OtherError ''no match found'')"
    by (simp add: fragment_Terms_simps fragment_parses)
  have p2: "ParseTerm fragment_Terms (''request.'' @ ''x'') = Inr (VRef [VVar ''request'', VString ''x''])"
    by (simp add: fragment_Terms_simps fragment_parses)
  have p3: "ParseTerm fragment_Terms ''1'' = Inr (VNumber 1)"
    by (simp add: fragment_Terms_simps fragment_parses)
  have p4: "ParseTerm fragment_Terms ''}'' = Inl (OtherError ''no match found'')"
    by (simp add: fragment_Terms_simps fragment_parses)
  from a p1 p2 p3 fragment_splits(1)
  have r1: "parseRequest_item fragment_Terms ''x:1''
       = Returned (Inr (VRef [VVar ''request'', VString ''x''], VNumber 1))"
    by blast
  from b p3 have r2: "parseRequest_item fragment_Terms ''1'' = Returned (Inr (EmptyRef fragment_Terms, VNumber 1))"
    by blast
  from c p4 fragment_splits(3)
  have r3: "parseRequest_item fragment_Terms ''}'' = Returned (Inl errRequestPathFormat)"
    by blast
  have ok: "list_all (\<lambda>x. \<exists>kv. parseRequest_item fragment_Terms x = Returned (Inr kv)) [''1'']"
    using r2 by simp
  from c ok r3
  have r4: "(v1DataGet mem_Storage fragment_Terms (answering JNull) empty_server ''a'' [] ([''1''] @ ''}'' # [])
       :: unit dataBody response outcome)
       = Returned (handleError 400 errRequestPathFormat)"
    by blast
  from h1 p1 fragment_splits(1) r1 p3 r2 r3 r4 show ?thesis by (intro conjI)
qed

text \<open>
  Claim C10, as amended. \<^verbatim>\<open>parseRequest\<close> reads the first byte of each item without
  checking that there is one. On a list with no empty item it does not panic. It
  panics on an empty item when every item before it has given a pair; when an item
  before the empty one fails, that item's error is returned and the empty item is
  never reached.
\<close>

theorem parseRequest_panics_at_empty_item:
  "(list_all (\<lambda>x. x \<noteq> []) s \<longrightarrow> parseRequest T s \<noteq> Panicked)
   \<and> (list_all (\<lambda>x. \<exists>kv. parseRequest_item T x = Returned (Inr kv)) pre \<longrightarrow>
        parseRequest T (pre @ [] # post) = Panicked)
   \<and> (list_all (\<lambda>x. \<exists>kv. parseRequest_item T x = Returned (Inr kv)) pre_a \<and>
       parseRequest_item T item = Returned (Inl err) \<longrightarrow>
        parseRequest T (pre_a @ item # post_a) = Returned (Inl err))"
proof -
  have "parseRequest_item T [] = Panicked" by (simp add: parseRequest_item_def)
  then show ?thesis
    using parseRequest_nonempty[of s T] parseRequest_stops_panic[of T pre "[]" post]
      parseRequest_stops_error[of T pre_a item err post_a]
    by blast
qed

text \<open>
  The claim as stated fails on a list whose first item does not parse and whose second
  item is empty: the result is the error of the first item, not a panic.
\<close>

theorem parseRequest_panics_at_empty_item_counterexample:
  "parseRequest fragment_Terms [''}'', []] = Returned (Inl errRequestPathFormat)"
  by (simp add: parseRequest_def parseRequest_item_def fragment_Terms_simps fragment_parses
      fragment_splits)

theorem parseRequest_panics_at_empty_item_witness:
  "list_all (\<lambda>x. x \<noteq> []) [''x:1'', ''1'']
   \<and> parseRequest fragment_Terms [''x:1'', ''1''] \<noteq> Panicked
   \<and> list_all (\<lambda>x. \<exists>kv. parseRequest_item fragment_Terms x = Returned (Inr kv)) [''1'']
   \<and> parseRequest fragment_Terms ([''1''] @ [] # [''x:1'']) = Panicked
   \<and> parseRequest_item fragment_Terms ''}'' = Returned (Inl errRequestPathFormat)
   \<and> parseRequest fragment_Terms ([''1''] @ ''}'' # [[]]) = Returned (Inl errRequestPathFormat)"
proof -
  have ne: "list_all (\<lambda>x. x \<noteq> []) [''x:1'', ''1'']" by simp
  have r2: "parseRequest_item fragment_Terms ''1'' = Returned (Inr (VRef [], VNumber 1))"
    by (simp add: parseRequest_item_def fragment_Terms_simps fragment_parses)
  then have ok: "list_all (\<lambda>x. \<exists>kv. parseRequest_item fragment_Terms x = Returned (Inr kv)) [''1'']"
    by simp
  have r3: "parseRequest_item fragment_Terms ''}'' = Returned (Inl errRequestPathFormat)"
    by (simp add: parseRequest_item_def fragment_Terms_simps fragment_parses fragment_splits)
  note main = parseRequest_panics_at_empty_item[where T = fragment_Terms
      and s = "[''x:1'', ''1'']" and pre = "[''1'']" and post = "[''x:1'']"
      and pre_a = "[''1'']" and item = "''}''" and err = errRequestPathFormat and post_a = "[[]]"]
  from main ne ok r3 show ?thesis by blast
qed

end
